theory Spec2Isabelle
  imports Complex_Main
begin

section \<open>Common values\<close>

text \<open>
  The services exchange JSON over HTTP. Status values are plain strings in the source
  (\<^verbatim>\<open>String(30)\<close> columns, \<^verbatim>\<open>str\<close> schema fields), so they stay strings here.
  A handler of a FastAPI route either returns a value or raises \<^verbatim>\<open>HTTPException\<close>.
\<close>

datatype http_exception = HTTPException nat string

text \<open>Python truthiness of an optional string: \<^verbatim>\<open>None\<close> and \<^verbatim>\<open>""\<close> are falsy.\<close>

definition truthy :: "string option \<Rightarrow> bool" where
  "truthy s = (case s of None \<Rightarrow> False | Some v \<Rightarrow> v \<noteq> [])"

text \<open>Decimal rendering of a non-negative integer, as \<^verbatim>\<open>str(n)\<close> and f-strings do.\<close>

fun str_nat :: "nat \<Rightarrow> string" where
  "str_nat n = (if n < 10 then [''0123456789'' ! n]
                else str_nat (n div 10) @ [''0123456789'' ! (n mod 10)])"

declare str_nat.simps [simp del]

section \<open>Orders service\<close>

text \<open>
  \<^verbatim>\<open>services/orders/app/domain/models.py\<close>, \<^verbatim>\<open>application/schemas.py\<close>,
  \<^verbatim>\<open>application/service.py\<close>, \<^verbatim>\<open>api/routes.py\<close>. The table is keyed by the primary
  key \<^verbatim>\<open>id\<close>; \<^verbatim>\<open>db.query(Order).filter(Order.id == order_id).first()\<close> is the lookup.
\<close>

record order_item =
  product_id :: nat
  sku :: string
  quantity :: nat
  unit_price :: rat

record order =
  order_number :: string
  customer_id :: nat
  order_status :: string
  payment_status :: string
  payment_id :: "string option"
  receipt_id :: "string option"
  items :: "order_item list"

type_synonym orders_table = "nat \<rightharpoonup> order"

text \<open>\<^verbatim>\<open>OrderUpdate\<close>: every field optional, default \<^verbatim>\<open>None\<close>.\<close>

record order_update =
  u_order_status :: "string option"
  u_payment_status :: "string option"
  u_payment_id :: "string option"
  u_receipt_id :: "string option"

text \<open>\<^verbatim>\<open>OrderService.update\<close>: only the provided fields are written.\<close>

definition set_if :: "'a option \<Rightarrow> 'a \<Rightarrow> 'a" where
  "set_if v old = (case v of None \<Rightarrow> old | Some x \<Rightarrow> x)"

definition apply_order_update :: "order_update \<Rightarrow> order \<Rightarrow> order" where
  "apply_order_update data ord =
     ord\<lparr>order_status := set_if (u_order_status data) (order_status ord),
         payment_status := set_if (u_payment_status data) (payment_status ord),
         payment_id := (case u_payment_id data of None \<Rightarrow> payment_id ord | Some p \<Rightarrow> Some p),
         receipt_id := (case u_receipt_id data of None \<Rightarrow> receipt_id ord | Some r \<Rightarrow> Some r)\<rparr>"

definition OrderService_update ::
  "nat \<Rightarrow> order_update \<Rightarrow> orders_table \<Rightarrow> order option \<times> orders_table" where
  "OrderService_update oid data db =
     (case db oid of
        None \<Rightarrow> (None, db)
      | Some ord \<Rightarrow> (let ord' = apply_order_update data ord in (Some ord', db(oid \<mapsto> ord'))))"

definition touching_payment_fields :: "order_update \<Rightarrow> bool" where
  "touching_payment_fields payload =
     (u_payment_status payload \<noteq> None \<or> u_payment_id payload \<noteq> None \<or> u_receipt_id payload \<noteq> None)"

definition payment_finalized :: "order \<Rightarrow> bool" where
  "payment_finalized ord = (payment_status ord \<in> set [''COMPLETED'', ''FAILED''])"

text \<open>\<^verbatim>\<open>PUT /orders/{order_id}\<close>. The result is the raised exception or the returned row.\<close>

definition update_order ::
  "nat \<Rightarrow> order_update \<Rightarrow> orders_table \<Rightarrow> (http_exception + order option) \<times> orders_table" where
  "update_order oid payload db =
     (case db oid of
        None \<Rightarrow> (Inl (HTTPException 404 ''Order not found''), db)
      | Some ord \<Rightarrow>
          if payment_finalized ord \<and> touching_payment_fields payload
          then (Inl (HTTPException 403
                  ''Cannot modify payment fields after payment has been completed or failed''), db)
          else (case OrderService_update oid payload db of (r, db') \<Rightarrow> (Inr r, db')))"

text \<open>\<^verbatim>\<open>DELETE /orders/{order_id}\<close>: returns \<^verbatim>\<open>None\<close> (204) after deleting the row.\<close>

definition delete_order ::
  "nat \<Rightarrow> orders_table \<Rightarrow> (http_exception + unit) \<times> orders_table" where
  "delete_order oid db =
     (case db oid of
        None \<Rightarrow> (Inl (HTTPException 404 ''Order not found''), db)
      | Some ord \<Rightarrow>
          if payment_finalized ord
          then (Inl (HTTPException 403
                  ''Cannot delete order after payment has been completed or failed''), db)
          else (Inr (), db(oid := None)))"

text \<open>\<^verbatim>\<open>GET /orders/{order_id}\<close>.\<close>

definition get_order :: "nat \<Rightarrow> orders_table \<Rightarrow> http_exception + order" where
  "get_order oid db =
     (case db oid of None \<Rightarrow> Inl (HTTPException 404 ''Order not found'') | Some ord \<Rightarrow> Inr ord)"

section \<open>Shipments service\<close>

text \<open>
  \<^verbatim>\<open>services/shipments/app/domain/models.py\<close>, \<^verbatim>\<open>application/schemas.py\<close>,
  \<^verbatim>\<open>application/service.py\<close>, \<^verbatim>\<open>api/routes.py\<close>. Rows are listed in insertion order;
  the service has no check on \<^verbatim>\<open>order_id\<close>, so several rows may name the same order.
  Timestamps are seconds since the epoch; \<^verbatim>\<open>isoformat\<close> is abstracted to their decimal
  rendering (no property below depends on the calendar format).
\<close>

definition isoformat :: "nat \<Rightarrow> string" where
  "isoformat t = str_nat t"

text \<open>Python's \<^verbatim>\<open>x or d\<close> on an optional string.\<close>

definition or_default :: "string option \<Rightarrow> string \<Rightarrow> string" where
  "or_default s d = (case s of None \<Rightarrow> d | Some v \<Rightarrow> if v = [] then d else v)"

record shipment =
  s_id :: nat
  s_order_id :: nat
  carrier :: string
  status :: string
  tracking_no :: string
  shipped_at :: string
  delivered_at :: "string option"

record shipping_address =
  street :: "string option"
  city :: "string option"
  state :: "string option"
  zip_code :: "string option"
  country :: "string option"

text \<open>
  The JSON body the dashboard posts to \<^verbatim>\<open>POST /shipments/\<close>. \<^verbatim>\<open>ShipmentCreate\<close> reads
  \<^verbatim>\<open>order_id\<close>, \<^verbatim>\<open>carrier\<close>, \<^verbatim>\<open>status\<close>, \<^verbatim>\<open>tracking_no\<close>, \<^verbatim>\<open>shipped_at\<close> and
  \<^verbatim>\<open>delivered_at\<close>; the other keys are ignored by the schema. An absent key and a null
  are both \<open>None\<close>: \<^verbatim>\<open>create\<close> treats them alike.
\<close>

record shipment_data =
  sd_order_id :: nat
  sd_customer_id :: nat
  sd_items :: "order_item list"
  sd_shipping_address :: shipping_address
  sd_status :: "string option"
  sd_carrier :: "string option"
  sd_tracking_no :: "string option"
  sd_shipped_at :: "string option"
  sd_delivered_at :: "string option"

text \<open>
  The JSON body the dashboard sends to \<^verbatim>\<open>PUT /shipments/{id}\<close>; \<open>None\<close> is an absent key.
  \<^verbatim>\<open>ShipmentUpdate\<close> has no \<^verbatim>\<open>shipped_at\<close> field, so that key is dropped by the service.
\<close>

record shipment_update =
  su_status :: "string option"
  su_carrier :: "string option"
  su_tracking_no :: "string option"
  su_shipped_at :: "string option"
  su_delivered_at :: "string option"

definition next_shipment_id :: "shipment list \<Rightarrow> nat" where
  "next_shipment_id db = Suc (fold max (map s_id db) 0)"

text \<open>\<^verbatim>\<open>ShipmentService.create\<close> (answered with 201).\<close>

definition ShipmentService_create :: "nat \<Rightarrow> shipment_data \<Rightarrow> shipment list \<Rightarrow> shipment \<times> shipment list" where
  "ShipmentService_create now payload db =
     (let obj = \<lparr>s_id = next_shipment_id db,
                 s_order_id = sd_order_id payload,
                 carrier = or_default (sd_carrier payload) ''Standard Delivery'',
                 status = or_default (sd_status payload) ''PENDING'',
                 tracking_no = or_default (sd_tracking_no payload)
                                 (''TRK'' @ str_nat (sd_order_id payload) @ str_nat now),
                 shipped_at = or_default (sd_shipped_at payload) (isoformat now),
                 delivered_at = sd_delivered_at payload\<rparr>
      in (obj, db @ [obj]))"

definition apply_shipment_update :: "shipment_update \<Rightarrow> shipment \<Rightarrow> shipment" where
  "apply_shipment_update data s =
     s\<lparr>status := set_if (su_status data) (status s),
       carrier := set_if (su_carrier data) (carrier s),
       tracking_no := set_if (su_tracking_no data) (tracking_no s),
       delivered_at := (case su_delivered_at data of None \<Rightarrow> delivered_at s | Some d \<Rightarrow> Some d)\<rparr>"

fun update_row :: "nat \<Rightarrow> (shipment \<Rightarrow> shipment) \<Rightarrow> shipment list \<Rightarrow> shipment list" where
  "update_row sid f [] = []"
| "update_row sid f (s # ss) = (if s_id s = sid then f s # ss else s # update_row sid f ss)"

text \<open>\<^verbatim>\<open>ShipmentService.update\<close>: 404 when no row has the id.\<close>

definition ShipmentService_update ::
  "nat \<Rightarrow> shipment_update \<Rightarrow> shipment list \<Rightarrow> (http_exception + shipment) \<times> shipment list" where
  "ShipmentService_update sid data db =
     (case find (\<lambda>s. s_id s = sid) db of
        None \<Rightarrow> (Inl (HTTPException 404 ''Shipment not found''), db)
      | Some s \<Rightarrow> (Inr (apply_shipment_update data s), update_row sid (apply_shipment_update data) db))"

section \<open>Customers service\<close>

text \<open>\<^verbatim>\<open>CustomerRead\<close>; \<^verbatim>\<open>GET /customers/\<close> without parameters returns the first 100 rows.\<close>

record customer =
  c_id :: nat
  name :: string
  email :: string
  phone :: "string option"
  address_street :: "string option"
  address_city :: "string option"
  address_state :: "string option"
  address_zip :: "string option"
  address_country :: "string option"

definition list_customers :: "customer list \<Rightarrow> customer list" where
  "list_customers db = take 100 db"

section \<open>Dashboard: the world the saga runs in\<close>

text \<open>
  \<^verbatim>\<open>services/dashboard/main.py\<close>. The handlers talk to the services through an
  \<^verbatim>\<open>httpx.AsyncClient\<close>. Each call is recorded in \<open>trace\<close>, in the order it is issued.
  What the network does to a call is read from \<open>faults\<close>, one entry per call: the call
  reaches the service (\<open>FOk\<close>, also when the list is exhausted), is answered with a status
  code by something in between without reaching the service (\<open>FStatus\<close>, the body is
  empty), or raises in the client (\<open>FRaise\<close>: connection error, timeout).
\<close>

datatype fault = FOk | FStatus nat | FRaise string

datatype request =
    GET_order nat
  | PUT_order nat order_update
  | GET_shipments
  | POST_shipment shipment_data
  | PUT_shipment nat shipment_update
  | GET_customers

record activity =
  a_timestamp :: nat
  a_action :: string
  a_entity_type :: string
  a_entity_id :: string
  a_user :: string
  a_details :: "string option"

record world =
  orders_db :: orders_table
  shipments_db :: "shipment list"
  customers_db :: "customer list"
  recent_activity :: "activity list"
  clock :: nat
  faults :: "fault list"
  trace :: "request list"

text \<open>
  A computation either raises a Python exception (its message, \<open>Inl\<close>) or returns;
  what it did to the world before raising stays done.
\<close>

type_synonym 'a io = "world \<Rightarrow> (string + 'a) \<times> world"

definition ret :: "'a \<Rightarrow> 'a io" where
  "ret x w = (Inr x, w)"

definition bind_io :: "'a io \<Rightarrow> ('a \<Rightarrow> 'b io) \<Rightarrow> 'b io" where
  "bind_io m f w = (case m w of (Inl e, w') \<Rightarrow> (Inl e, w') | (Inr x, w') \<Rightarrow> f x w')"

text \<open>\<^verbatim>\<open>try: ... except Exception: print(...)\<close>\<close>

definition catch_all :: "unit io \<Rightarrow> unit io" where
  "catch_all m w = (case m w of (Inl e, w') \<Rightarrow> (Inr (), w') | (Inr x, w') \<Rightarrow> (Inr x, w'))"

text \<open>\<^verbatim>\<open>response.json()\<close>: raises on an empty body.\<close>

definition json_of :: "nat \<times> 'a option \<Rightarrow> 'a io" where
  "json_of resp = (case snd resp of None \<Rightarrow> (\<lambda>w. (Inl ''JSONDecodeError'', w)) | Some b \<Rightarrow> ret b)"

definition send :: "request \<Rightarrow> world \<Rightarrow> fault \<times> world" where
  "send rq w =
     (let w1 = w\<lparr>trace := trace w @ [rq]\<rparr>
      in case faults w1 of [] \<Rightarrow> (FOk, w1) | f # fs \<Rightarrow> (f, w1\<lparr>faults := fs\<rparr>))"

definition client_get_order :: "nat \<Rightarrow> (nat \<times> order option) io" where
  "client_get_order oid w =
     (case send (GET_order oid) w of
        (FRaise m, w1) \<Rightarrow> (Inl m, w1)
      | (FStatus n, w1) \<Rightarrow> (Inr (n, None), w1)
      | (FOk, w1) \<Rightarrow>
          (case get_order oid (orders_db w1) of
             Inl (HTTPException n d) \<Rightarrow> (Inr (n, None), w1)
           | Inr ord \<Rightarrow> (Inr (200, Some ord), w1)))"

definition client_put_order :: "nat \<Rightarrow> order_update \<Rightarrow> (nat \<times> order option) io" where
  "client_put_order oid payload w =
     (case send (PUT_order oid payload) w of
        (FRaise m, w1) \<Rightarrow> (Inl m, w1)
      | (FStatus n, w1) \<Rightarrow> (Inr (n, None), w1)
      | (FOk, w1) \<Rightarrow>
          (case update_order oid payload (orders_db w1) of
             (Inl (HTTPException n d), db') \<Rightarrow> (Inr (n, None), w1)
           | (Inr r, db') \<Rightarrow> (Inr (200, r), w1\<lparr>orders_db := db'\<rparr>)))"

definition client_get_shipments :: "(nat \<times> shipment list option) io" where
  "client_get_shipments w =
     (case send GET_shipments w of
        (FRaise m, w1) \<Rightarrow> (Inl m, w1)
      | (FStatus n, w1) \<Rightarrow> (Inr (n, None), w1)
      | (FOk, w1) \<Rightarrow> (Inr (200, Some (shipments_db w1)), w1))"

definition client_post_shipment :: "shipment_data \<Rightarrow> (nat \<times> shipment option) io" where
  "client_post_shipment payload w =
     (case send (POST_shipment payload) w of
        (FRaise m, w1) \<Rightarrow> (Inl m, w1)
      | (FStatus n, w1) \<Rightarrow> (Inr (n, None), w1)
      | (FOk, w1) \<Rightarrow>
          (case ShipmentService_create (clock w1) payload (shipments_db w1) of
             (obj, db') \<Rightarrow> (Inr (201, Some obj), w1\<lparr>shipments_db := db'\<rparr>)))"

definition client_put_shipment :: "nat \<Rightarrow> shipment_update \<Rightarrow> (nat \<times> shipment option) io" where
  "client_put_shipment sid payload w =
     (case send (PUT_shipment sid payload) w of
        (FRaise m, w1) \<Rightarrow> (Inl m, w1)
      | (FStatus n, w1) \<Rightarrow> (Inr (n, None), w1)
      | (FOk, w1) \<Rightarrow>
          (case ShipmentService_update sid payload (shipments_db w1) of
             (Inl (HTTPException n d), db') \<Rightarrow> (Inr (n, None), w1)
           | (Inr s, db') \<Rightarrow> (Inr (200, Some s), w1\<lparr>shipments_db := db'\<rparr>)))"

definition client_get_customers :: "(nat \<times> customer list option) io" where
  "client_get_customers w =
     (case send GET_customers w of
        (FRaise m, w1) \<Rightarrow> (Inl m, w1)
      | (FStatus n, w1) \<Rightarrow> (Inr (n, None), w1)
      | (FOk, w1) \<Rightarrow> (Inr (200, Some (list_customers (customers_db w1))), w1))"

text \<open>\<^verbatim>\<open>datetime.utcnow()\<close>\<close>

definition utcnow :: "nat io" where
  "utcnow w = (Inr (clock w), w)"

text \<open>
  \<^verbatim>\<open>add_activity\<close>: newest first, at most 50 kept in memory. The insert into the durable
  table is wrapped in its own \<^verbatim>\<open>try\<close>/\<^verbatim>\<open>except\<close> and never changes the control flow.
\<close>

definition add_activity :: "string \<Rightarrow> string \<Rightarrow> string \<Rightarrow> string \<Rightarrow> string option \<Rightarrow> unit io" where
  "add_activity act entity_type entity_id usr details w =
     (let a = \<lparr>a_timestamp = clock w, a_action = act, a_entity_type = entity_type,
               a_entity_id = entity_id, a_user = usr, a_details = details\<rparr>;
          ra = a # recent_activity w
      in (Inr (), w\<lparr>recent_activity := (if length ra > 50 then butlast ra else ra)\<rparr>))"

section \<open>Dashboard: payment decision and order status change\<close>

record user =
  username :: string
  role :: string

definition ADMIN :: string where
  "ADMIN = ''admin''"

text \<open>The request body of the payment endpoint; an absent key and a null are \<open>None\<close>.\<close>

record payment_action =
  action :: "string option"
  pa_payment_id :: "string option"
  pa_receipt_id :: "string option"

text \<open>
  The dictionary a handler returns: \<^verbatim>\<open>{"success", "message", ...}\<close> or
  \<^verbatim>\<open>{"success": False, "error"}\<close>; a key that is not in the dictionary is \<open>None\<close>.
\<close>

record envelope =
  success :: bool
  message :: "string option"
  error :: "string option"
  env_payment_status :: "string option"
  env_order_status :: "string option"
  env_data :: "order option"

definition failure :: "string \<Rightarrow> envelope" where
  "failure e = \<lparr>success = False, message = None, error = Some e, env_payment_status = None,
                env_order_status = None, env_data = None\<rparr>"

definition fallback_address :: shipping_address where
  "fallback_address = \<lparr>street = Some ''Address Not Provided'', city = Some ''N/A'',
     state = Some ''N/A'', zip_code = Some ''00000'', country = Some ''USA''\<rparr>"

definition build_shipping_address :: "customer option \<Rightarrow> shipping_address" where
  "build_shipping_address cust =
     (case cust of
        None \<Rightarrow> fallback_address
      | Some c \<Rightarrow>
          if truthy (address_street c)
          then \<lparr>street = address_street c, city = address_city c, state = address_state c,
                zip_code = address_zip c, country = address_country c\<rparr>
          else fallback_address)"

text \<open>Fetch all customers and pick the one of the order.\<close>

definition fetch_customer :: "nat \<Rightarrow> customer option io" where
  "fetch_customer cid =
     bind_io client_get_customers (\<lambda>customer_resp.
       if fst customer_resp = 200
       then bind_io (json_of customer_resp) (\<lambda>customers. ret (find (\<lambda>c. c_id c = cid) customers))
       else ret None)"

text \<open>The \<^verbatim>\<open>approve\<close> branch of \<^verbatim>\<open>process_payment\<close>; it returns the message.\<close>

definition approve_branch :: "nat \<Rightarrow> payment_action \<Rightarrow> user \<Rightarrow> string io" where
  "approve_branch oid pa usr =
     (let msg = ''Payment approved for order #'' @ str_nat oid in
      bind_io (client_get_order oid) (\<lambda>order_resp.
        if fst order_resp = 200
        then
          bind_io (json_of order_resp) (\<lambda>ord.
          let update_data =
                \<lparr>u_order_status = Some ''PROCESSING'', u_payment_status = Some ''COMPLETED'',
                 u_payment_id = (if truthy (pa_payment_id pa) then pa_payment_id pa else None),
                 u_receipt_id = (if truthy (pa_receipt_id pa) then pa_receipt_id pa else None)\<rparr> in
          bind_io (client_put_order oid update_data) (\<lambda>update_resp.
          bind_io (fetch_customer (customer_id ord)) (\<lambda>cust.
          let shipment_data =
                \<lparr>sd_order_id = oid, sd_customer_id = customer_id ord, sd_items = items ord,
                 sd_shipping_address = build_shipping_address cust, sd_status = Some ''PENDING'',
                 sd_carrier = None, sd_tracking_no = None, sd_shipped_at = None,
                 sd_delivered_at = None\<rparr> in
          bind_io (client_post_shipment shipment_data) (\<lambda>shipment_resp.
            if fst shipment_resp = 201
            then
              bind_io (json_of shipment_resp) (\<lambda>shipment.
              bind_io (add_activity ''CREATE'' ''shipment'' (str_nat (s_id shipment)) (username usr)
                         (Some (''Shipment created for order #'' @ str_nat oid))) (\<lambda>_.
              ret (msg @ '' | Shipment #'' @ str_nat (s_id shipment) @ '' created'')))
            else ret msg))))
        else ret msg))"

text \<open>The \<^verbatim>\<open>else\<close> branch: every action that is not \<^verbatim>\<open>'approve'\<close>.\<close>

definition decline_update :: order_update where
  "decline_update = \<lparr>u_order_status = Some ''CANCELLED'', u_payment_status = Some ''FAILED'',
                     u_payment_id = None, u_receipt_id = None\<rparr>"

definition decline_branch :: "nat \<Rightarrow> string io" where
  "decline_branch oid =
     bind_io (client_put_order oid decline_update) (\<lambda>update_resp.
       ret (''Payment declined for order #'' @ str_nat oid))"

text \<open>The body of the \<^verbatim>\<open>try\<close> of \<^verbatim>\<open>process_payment\<close>.\<close>

definition process_payment_try :: "nat \<Rightarrow> payment_action \<Rightarrow> user \<Rightarrow> envelope io" where
  "process_payment_try oid pa usr =
     (if action pa = Some ''approve''
      then
        bind_io (approve_branch oid pa usr) (\<lambda>msg.
        bind_io (add_activity ''PAYMENT'' ''order'' (str_nat oid) (username usr) (Some msg)) (\<lambda>_.
        ret \<lparr>success = True, message = Some msg, error = None,
             env_payment_status = Some ''COMPLETED'', env_order_status = Some ''PROCESSING'',
             env_data = None\<rparr>))
      else
        bind_io (decline_branch oid) (\<lambda>msg.
        bind_io (add_activity ''PAYMENT'' ''order'' (str_nat oid) (username usr) (Some msg)) (\<lambda>_.
        ret \<lparr>success = True, message = Some msg, error = None,
             env_payment_status = Some ''FAILED'', env_order_status = Some ''CANCELLED'',
             env_data = None\<rparr>)))"

text \<open>\<^verbatim>\<open>POST /api/orders/{order_id}/payment\<close>\<close>

definition process_payment ::
  "nat \<Rightarrow> payment_action \<Rightarrow> user \<Rightarrow> world \<Rightarrow> (http_exception + envelope) \<times> world" where
  "process_payment oid pa usr w =
     (if role usr \<noteq> ADMIN then (Inl (HTTPException 403 ''Admin access required''), w)
      else
        (case process_payment_try oid pa usr w of
           (Inr env, w') \<Rightarrow> (Inr env, w')
         | (Inl e, w') \<Rightarrow>
             (Inr (failure e),
              snd (add_activity ''PAYMENT'' ''order'' (str_nat oid) (username usr)
                     (Some (''Payment error: '' @ e)) w'))))"

text \<open>
  The SHIPPED branch of \<^verbatim>\<open>update_order_status\<close>, entered after the list of shipments was
  read: \<open>order_shipment\<close> is the first shipment of the order, if any.
\<close>

definition shipped_branch :: "nat \<Rightarrow> shipment option \<Rightarrow> user \<Rightarrow> unit io" where
  "shipped_branch oid order_shipment usr =
     bind_io (client_get_order oid) (\<lambda>order_resp.
       if fst order_resp = 200
       then
         bind_io (json_of order_resp) (\<lambda>ord.
           if payment_status ord \<noteq> ''COMPLETED'' then ret ()
           else
             (case order_shipment of
                None \<Rightarrow>
                  bind_io (fetch_customer (customer_id ord)) (\<lambda>cust.
                  bind_io utcnow (\<lambda>now.
                  let shipment_data =
                        \<lparr>sd_order_id = oid, sd_customer_id = customer_id ord, sd_items = items ord,
                         sd_shipping_address = build_shipping_address cust,
                         sd_status = Some ''IN_TRANSIT'', sd_carrier = Some ''Standard Delivery'',
                         sd_tracking_no = Some (''TRK'' @ str_nat oid @ str_nat now),
                         sd_shipped_at = Some (isoformat now), sd_delivered_at = None\<rparr> in
                  bind_io (client_post_shipment shipment_data) (\<lambda>shipment_resp.
                    if fst shipment_resp = 201
                    then
                      bind_io (json_of shipment_resp) (\<lambda>shipment.
                        add_activity ''CREATE'' ''shipment'' (str_nat (s_id shipment)) (username usr)
                          (Some (''Shipment created for order #'' @ str_nat oid)))
                    else ret ())))
              | Some s \<Rightarrow>
                  bind_io utcnow (\<lambda>now.
                  let update_payload =
                        \<lparr>su_status = Some ''IN_TRANSIT'',
                         su_carrier = (if carrier s = [] then Some ''Standard Delivery'' else None),
                         su_tracking_no = (if tracking_no s = []
                                           then Some (''TRK'' @ str_nat oid @ str_nat now) else None),
                         su_shipped_at = (if shipped_at s = [] then Some (isoformat now) else None),
                         su_delivered_at = None\<rparr> in
                  bind_io (client_put_shipment (s_id s) update_payload) (\<lambda>_.
                    add_activity ''UPDATE'' ''shipment'' (str_nat (s_id s)) (username usr)
                      (Some (''Shipment moved to IN_TRANSIT for order #'' @ str_nat oid))))))
       else ret ())"

definition delivered_branch :: "nat \<Rightarrow> shipment \<Rightarrow> user \<Rightarrow> unit io" where
  "delivered_branch oid s usr =
     (if status s \<in> set [''IN_TRANSIT'', ''PENDING'']
      then
        bind_io utcnow (\<lambda>delivery_time.
        bind_io (client_put_shipment (s_id s)
                   \<lparr>su_status = Some ''DELIVERED'', su_carrier = None, su_tracking_no = None,
                    su_shipped_at = None, su_delivered_at = Some (isoformat delivery_time)\<rparr>) (\<lambda>_.
          add_activity ''UPDATE'' ''shipment'' (str_nat (s_id s)) (username usr)
            (Some (''Shipment delivered for order #'' @ str_nat oid))))
      else ret ())"

definition cancel_shipment :: "shipment \<Rightarrow> user \<Rightarrow> string \<Rightarrow> unit io" where
  "cancel_shipment s usr details =
     bind_io (client_put_shipment (s_id s)
                \<lparr>su_status = Some ''CANCELLED'', su_carrier = None, su_tracking_no = None,
                 su_shipped_at = None, su_delivered_at = None\<rparr>) (\<lambda>_.
       add_activity ''UPDATE'' ''shipment'' (str_nat (s_id s)) (username usr) (Some details))"

text \<open>The inner \<^verbatim>\<open>try\<close> of \<^verbatim>\<open>update_order_status\<close>: the shipment side.\<close>

definition handle_shipment :: "nat \<Rightarrow> string option \<Rightarrow> user \<Rightarrow> unit io" where
  "handle_shipment oid new_status usr =
     bind_io client_get_shipments (\<lambda>shipments_resp.
     bind_io (if fst shipments_resp = 200 then json_of shipments_resp else ret []) (\<lambda>shipments.
     let order_shipment = find (\<lambda>s. s_order_id s = oid) shipments in
       if new_status = Some ''SHIPPED'' then shipped_branch oid order_shipment usr
       else if new_status = Some ''DELIVERED'' \<and> order_shipment \<noteq> None
       then (case order_shipment of Some s \<Rightarrow> delivered_branch oid s usr | None \<Rightarrow> ret ())
       else if new_status = Some ''UNDELIVERED'' \<and> order_shipment \<noteq> None
       then (case order_shipment of
               Some s \<Rightarrow> cancel_shipment s usr
                           (''Shipment cancelled (undelivered) for order #'' @ str_nat oid)
             | None \<Rightarrow> ret ())
       else if new_status = Some ''CANCELLED'' \<and> order_shipment \<noteq> None
       then (case order_shipment of
               Some s \<Rightarrow> cancel_shipment s usr (''Shipment cancelled for order #'' @ str_nat oid)
             | None \<Rightarrow> ret ())
       else ret ()))"

text \<open>
  The body of the outer \<^verbatim>\<open>try\<close> of \<^verbatim>\<open>update_order_status\<close>: first the order is
  written, then \<open>after_order_update\<close> looks at the response.
\<close>

definition after_order_update ::
  "nat \<Rightarrow> order_update \<Rightarrow> user \<Rightarrow> nat \<times> order option \<Rightarrow> envelope io" where
  "after_order_update oid status_data usr response =
     (if fst response = 200
      then
        (let new_status = u_order_status status_data in
         bind_io (catch_all (handle_shipment oid new_status usr)) (\<lambda>_.
         bind_io (add_activity ''UPDATE'' ''order'' (str_nat oid) (username usr)
                    (Some (''Updated order status to '' @
                           (case new_status of None \<Rightarrow> ''None'' | Some v \<Rightarrow> v)))) (\<lambda>_.
         bind_io (json_of response) (\<lambda>body.
         ret \<lparr>success = True, message = Some ''Order status updated'', error = None,
              env_payment_status = None, env_order_status = None, env_data = Some body\<rparr>))))
      else ret (failure (''Failed to update order: HTTP '' @ str_nat (fst response))))"

definition update_order_status_try :: "nat \<Rightarrow> order_update \<Rightarrow> user \<Rightarrow> envelope io" where
  "update_order_status_try oid status_data usr =
     bind_io (client_put_order oid status_data) (after_order_update oid status_data usr)"

text \<open>\<^verbatim>\<open>PUT /api/orders/{order_id}/status\<close>\<close>

definition update_order_status ::
  "nat \<Rightarrow> order_update \<Rightarrow> user \<Rightarrow> world \<Rightarrow> (http_exception + envelope) \<times> world" where
  "update_order_status oid status_data usr w =
     (if role usr \<noteq> ADMIN then (Inl (HTTPException 403 ''Admin access required''), w)
      else
        (case update_order_status_try oid status_data usr w of
           (Inr env, w') \<Rightarrow> (Inr env, w')
         | (Inl e, w') \<Rightarrow> (Inr (failure e), w')))"

section \<open>Observations on a run of a handler\<close>

text \<open>Requests that write to the shipments service, and requests that write an order.\<close>

fun is_shipment_write :: "request \<Rightarrow> bool" where
  "is_shipment_write (POST_shipment payload) = True"
| "is_shipment_write (PUT_shipment sid payload) = True"
| "is_shipment_write rq = False"

fun is_order_write :: "request \<Rightarrow> bool" where
  "is_order_write (PUT_order oid payload) = True"
| "is_order_write rq = False"

text \<open>The envelope carries \<^verbatim>\<open>message\<close> when it reports success and \<^verbatim>\<open>error\<close> otherwise.\<close>

definition well_formed :: "envelope \<Rightarrow> bool" where
  "well_formed env = (if success env then message env \<noteq> None else error env \<noteq> None)"

text \<open>A call was answered with status \<open>n\<close> (and did not raise).\<close>

definition answered :: "nat \<Rightarrow> (string + nat \<times> 'a option) \<Rightarrow> bool" where
  "answered n r = (case r of Inl e \<Rightarrow> False | Inr resp \<Rightarrow> fst resp = n)"

text \<open>The order, if it exists, does not have its payment completed.\<close>

definition unpaid :: "nat \<Rightarrow> world \<Rightarrow> bool" where
  "unpaid oid w = (case orders_db w oid of None \<Rightarrow> True | Some ord \<Rightarrow> payment_status ord \<noteq> ''COMPLETED'')"

text \<open>The shipments of an order.\<close>

definition shipments_of :: "nat \<Rightarrow> world \<Rightarrow> shipment list" where
  "shipments_of oid w = filter (\<lambda>s. s_order_id s = oid) (shipments_db w)"

text \<open>
  \<open>returns P m\<close>: whatever \<open>m\<close> returns satisfies \<open>P\<close>. \<open>emits ok m\<close>: \<open>m\<close> only appends to
  the trace, and every request it appends satisfies \<open>ok\<close>.
\<close>

definition returns :: "('a \<Rightarrow> bool) \<Rightarrow> 'a io \<Rightarrow> bool" where
  "returns P m = (\<forall>w x w'. m w = (Inr x, w') \<longrightarrow> P x)"

definition emits :: "(request \<Rightarrow> bool) \<Rightarrow> 'a io \<Rightarrow> bool" where
  "emits ok m = (\<forall>w r w'. m w = (r, w') \<longrightarrow> (\<exists>rest. trace w' = trace w @ rest \<and> list_all ok rest))"

section \<open>Dashboard: health monitor with per-service backoff\<close>

text \<open>
  \<^verbatim>\<open>fetch_metrics\<close> in \<^verbatim>\<open>services/dashboard/main.py\<close>. Seconds are floats in the source
  and real numbers here. The settings are read from the environment:
  \<^verbatim>\<open>POLL_INTERVAL_SEC = max(0.5, ...)\<close>, \<^verbatim>\<open>BACKOFF_MAX_SEC = max(POLL_INTERVAL_SEC, ...)\<close>,
  \<^verbatim>\<open>BACKOFF_JITTER_MS = int(...)\<close> (truncation towards zero).
\<close>

record settings =
  POLL_INTERVAL_SEC :: real
  BACKOFF_FACTOR :: real
  BACKOFF_MAX_SEC :: real
  BACKOFF_JITTER_MS :: int

definition py_int :: "real \<Rightarrow> int" where
  "py_int x = (if 0 \<le> x then \<lfloor>x\<rfloor> else \<lceil>x\<rceil>)"

definition load_settings :: "real \<Rightarrow> real \<Rightarrow> real \<Rightarrow> real \<Rightarrow> settings" where
  "load_settings poll factor bmax jitter =
     \<lparr>POLL_INTERVAL_SEC = max 0.5 poll, BACKOFF_FACTOR = factor,
      BACKOFF_MAX_SEC = max (max 0.5 poll) bmax, BACKOFF_JITTER_MS = py_int jitter\<rparr>"

record service_state =
  last_status :: "string option"
  last_response_time_ms :: "int option"
  last_version :: "string option"
  last_releaseId :: "string option"
  backoff_sec :: real
  next_check_at :: real

definition initial_state :: "settings \<Rightarrow> service_state" where
  "initial_state cfg =
     \<lparr>last_status = None, last_response_time_ms = None, last_version = None,
      last_releaseId = None, backoff_sec = POLL_INTERVAL_SEC cfg, next_check_at = 0\<rparr>"

text \<open>
  What \<^verbatim>\<open>client.get(url + "/health")\<close> does: a response with its status code, elapsed
  milliseconds and body (\<open>Some (version, releaseId)\<close> when the body is a JSON object,
  \<open>None\<close> when it is not JSON or not an object), or one of the exceptions the source
  distinguishes.
\<close>

datatype probe =
    Response nat int "(string option \<times> string option) option"
  | ConnectError
  | TimeoutException
  | OtherException string

record service_metric =
  m_status :: string
  m_response_time_ms :: "int option"
  m_version :: "string option"
  m_releaseId :: "string option"
  m_error :: "string option"

text \<open>
  \<^verbatim>\<open>random.randint(a, b)\<close>: raises \<^verbatim>\<open>ValueError\<close> on an empty range; otherwise the draw
  \<open>rnd\<close> (any integer, supplied by the environment) is folded into the range.
\<close>

definition randint :: "int \<Rightarrow> int \<Rightarrow> int \<Rightarrow> string + int" where
  "randint a b rnd = (if b < a then Inl ''empty range for randrange()'' else Inr (a + rnd mod (b - a + 1)))"

definition next_backoff :: "settings \<Rightarrow> real \<Rightarrow> real" where
  "next_backoff cfg b =
     min (BACKOFF_MAX_SEC cfg) (max (POLL_INTERVAL_SEC cfg) (b * BACKOFF_FACTOR cfg))"

definition schedule :: "real \<Rightarrow> int \<Rightarrow> service_state \<Rightarrow> service_state" where
  "schedule now jitter_ms st =
     st\<lparr>next_check_at := now + max 0.5 (backoff_sec st + real_of_int jitter_ms / 1000)\<rparr>"

definition error_metric :: "string \<Rightarrow> service_metric" where
  "error_metric e = \<lparr>m_status = ''error'', m_response_time_ms = None, m_version = None,
                     m_releaseId = None, m_error = Some e\<rparr>"

text \<open>
  The three \<^verbatim>\<open>except\<close> clauses. An exception raised inside a handler (the jitter draw)
  leaves the loop; the backoff written before it stays. Only the \<^verbatim>\<open>ConnectError\<close>
  clause clears \<^verbatim>\<open>last_releaseId\<close>.
\<close>

definition on_exception ::
  "settings \<Rightarrow> real \<Rightarrow> int \<Rightarrow> string \<Rightarrow> bool \<Rightarrow> service_state \<Rightarrow> service_state \<times> (string + service_metric)" where
  "on_exception cfg now rnd msg clear_release st =
     (let st1 = st\<lparr>backoff_sec := next_backoff cfg (backoff_sec st)\<rparr>
      in case randint (- BACKOFF_JITTER_MS cfg) (BACKOFF_JITTER_MS cfg) rnd of
           Inl e \<Rightarrow> (st1, Inl e)
         | Inr j \<Rightarrow>
             (let st2 = (schedule now j st1)\<lparr>last_status := Some ''error'',
                          last_response_time_ms := None, last_version := None\<rparr>
              in (if clear_release then st2\<lparr>last_releaseId := None\<rparr> else st2,
                  Inr (error_metric msg))))"

text \<open>
  One iteration of the loop over \<^verbatim>\<open>SERVICES\<close>: the new state of the service, the metric
  entry (or the exception that leaves \<^verbatim>\<open>fetch_metrics\<close>), and the requests issued.
\<close>

definition check_service ::
  "settings \<Rightarrow> real \<Rightarrow> string \<Rightarrow> probe \<Rightarrow> int \<Rightarrow> service_state
     \<Rightarrow> service_state \<times> (string + service_metric) \<times> string list" where
  "check_service cfg now url pr rnd st =
     (if now < next_check_at st
      then (st, Inr \<lparr>m_status = or_default (last_status st) ''unknown'',
                     m_response_time_ms = last_response_time_ms st,
                     m_version = last_version st, m_releaseId = last_releaseId st,
                     m_error = None\<rparr>, [])
      else
        (case pr of
           Response code resp_ms body \<Rightarrow>
             (let status_ok = (code = 200);
                  version_val = (case body of None \<Rightarrow> None | Some (v, r) \<Rightarrow> v);
                  release_id = (case body of None \<Rightarrow> None | Some (v, r) \<Rightarrow> r);
                  metric = \<lparr>m_status = (if status_ok then ''healthy'' else ''unhealthy''),
                            m_response_time_ms = Some resp_ms, m_version = version_val,
                            m_releaseId = release_id, m_error = None\<rparr>;
                  st1 = st\<lparr>backoff_sec := (if status_ok then POLL_INTERVAL_SEC cfg
                                             else next_backoff cfg (backoff_sec st))\<rparr>
              in case randint (- BACKOFF_JITTER_MS cfg) (BACKOFF_JITTER_MS cfg) rnd of
                   Inl e \<Rightarrow>
                     (case on_exception cfg now rnd (take 50 e) False st1 of
                        (st2, r) \<Rightarrow> (st2, r, [url @ ''/health'']))
                 | Inr j \<Rightarrow>
                     ((schedule now j st1)\<lparr>last_status := Some (m_status metric),
                         last_response_time_ms := Some resp_ms, last_version := version_val,
                         last_releaseId := release_id\<rparr>,
                      Inr metric, [url @ ''/health'']))
         | ConnectError \<Rightarrow>
             (case on_exception cfg now rnd ''Connection failed'' True st of
                (st2, r) \<Rightarrow> (st2, r, [url @ ''/health'']))
         | TimeoutException \<Rightarrow>
             (case on_exception cfg now rnd ''Timeout'' False st of
                (st2, r) \<Rightarrow> (st2, r, [url @ ''/health'']))
         | OtherException e \<Rightarrow>
             (case on_exception cfg now rnd (take 50 e) False st of
                (st2, r) \<Rightarrow> (st2, r, [url @ ''/health'']))))"

text \<open>A probe succeeds when it is answered with status 200.\<close>

fun probe_ok :: "probe \<Rightarrow> bool" where
  "probe_ok (Response code resp_ms body) = (code = 200)"
| "probe_ok ConnectError = False"
| "probe_ok TimeoutException = False"
| "probe_ok (OtherException e) = False"

text \<open>
  The life of one service record: consulted again and again, each time with the clock,
  what the probe would do and the jitter draw. \<^verbatim>\<open>time.monotonic()\<close> is never negative.
\<close>

fun monitor_run :: "settings \<Rightarrow> string \<Rightarrow> (real \<times> probe \<times> int) list \<Rightarrow> service_state \<Rightarrow> service_state" where
  "monitor_run cfg url [] st = st"
| "monitor_run cfg url ((now, pr, rnd) # evs) st =
     monitor_run cfg url evs (fst (check_service cfg (max 0 now) url pr rnd st))"

text \<open>
  The loop of \<^verbatim>\<open>fetch_metrics\<close> over \<^verbatim>\<open>SERVICES.items()\<close>; \<^verbatim>\<open>SERVICE_STATE.setdefault\<close>
  creates a missing record. It stops at the first exception that leaves an iteration.
\<close>

fun fetch_loop ::
  "settings \<Rightarrow> real \<Rightarrow> (string \<Rightarrow> probe) \<Rightarrow> (string \<Rightarrow> int) \<Rightarrow> (string \<times> string) list
     \<Rightarrow> (string \<rightharpoonup> service_state) \<Rightarrow> (string \<times> service_metric) list
     \<Rightarrow> (string + (string \<times> service_metric) list) \<times> (string \<rightharpoonup> service_state)" where
  "fetch_loop cfg now probe_of rnd_of [] STATE metrics = (Inr metrics, STATE)"
| "fetch_loop cfg now probe_of rnd_of ((service, url) # rest) STATE metrics =
     (let st = (case STATE service of None \<Rightarrow> initial_state cfg | Some st0 \<Rightarrow> st0)
      in case check_service cfg now url (probe_of service) (rnd_of service) st of
           (st', Inl e, reqs) \<Rightarrow> (Inl e, STATE(service \<mapsto> st'))
         | (st', Inr m, reqs) \<Rightarrow>
             fetch_loop cfg now probe_of rnd_of rest (STATE(service \<mapsto> st')) (metrics @ [(service, m)]))"

text \<open>
  Two facts that hold of every record the monitor can reach: the backoff stays between
  the poll interval and the maximum (and at the poll interval when the factor is below
  one), and a record that has a check scheduled has a status recorded.
\<close>

definition backoff_inv :: "settings \<Rightarrow> service_state \<Rightarrow> bool" where
  "backoff_inv cfg st =
     (POLL_INTERVAL_SEC cfg \<le> backoff_sec st \<and> backoff_sec st \<le> BACKOFF_MAX_SEC cfg
      \<and> (BACKOFF_FACTOR cfg < 1 \<longrightarrow> backoff_sec st = POLL_INTERVAL_SEC cfg))"

definition recorded_inv :: "service_state \<Rightarrow> bool" where
  "recorded_inv st =
     (next_check_at st \<le> 0 \<or> last_status st \<in> {Some ''healthy'', Some ''unhealthy'', Some ''error''})"

section \<open>Gateway: cache and proxy\<close>

text \<open>
  \<^verbatim>\<open>services/gateway/app/main.py\<close>. Two tiers: Redis when \<^verbatim>\<open>redis_client\<close> is set, and
  the in-process \<^verbatim>\<open>TTLCache\<close>. A cached value is a JSON value: \<open>JNull\<close> is Python's
  \<^verbatim>\<open>None\<close>, \<open>JValue t\<close> any other value, named by its text. Redis holds text: \<open>Dumps v\<close>
  is what \<^verbatim>\<open>json.dumps(v)\<close> wrote, \<open>NotJson t\<close> a text that \<^verbatim>\<open>json.loads\<close> refuses.
  Expiry and the capacity bound only remove entries and are left out. Each Redis
  operation can raise; the source swallows the exception. \<open>fails\<close> says whether the
  operation raises.
\<close>

datatype json = JNull | JValue string

datatype redis_text = Dumps json | NotJson string

record cache =
  redis_client :: bool
  redis :: "string \<rightharpoonup> redis_text"
  local_cache :: "string \<rightharpoonup> json"

fun startswith :: "string \<Rightarrow> string \<Rightarrow> bool" where
  "startswith s [] = True"
| "startswith [] (p # ps) = False"
| "startswith (c # cs) (p # ps) = (c = p \<and> startswith cs ps)"

text \<open>\<^verbatim>\<open>local_cache.get(key)\<close>: \<^verbatim>\<open>None\<close> when the key is absent.\<close>

definition local_get :: "string \<Rightarrow> cache \<Rightarrow> json" where
  "local_get key c = (case local_cache c key of None \<Rightarrow> JNull | Some v \<Rightarrow> v)"

text \<open>
  \<^verbatim>\<open>cache_get\<close>: a Redis value that is present is parsed with \<^verbatim>\<open>json.loads\<close> and
  returned (also when it parses to \<^verbatim>\<open>None\<close>); when the read or the parse raises, or
  the key is absent, the local tier answers.
\<close>

definition cache_get :: "bool \<Rightarrow> string \<Rightarrow> cache \<Rightarrow> json" where
  "cache_get fails key c =
     (if redis_client c \<and> \<not> fails
      then (case redis c key of
              Some (Dumps v) \<Rightarrow> v
            | Some (NotJson t) \<Rightarrow> local_get key c
            | None \<Rightarrow> local_get key c)
      else local_get key c)"

definition cache_set :: "bool \<Rightarrow> string \<Rightarrow> json \<Rightarrow> cache \<Rightarrow> cache" where
  "cache_set fails key v c =
     (if redis_client c \<and> \<not> fails
      then c\<lparr>redis := (redis c)(key \<mapsto> Dumps v)\<rparr>
      else c\<lparr>local_cache := (local_cache c)(key \<mapsto> v)\<rparr>)"

definition purge :: "string \<Rightarrow> (string \<rightharpoonup> 'v) \<Rightarrow> (string \<rightharpoonup> 'v)" where
  "purge pre m = (\<lambda>key. if startswith key pre then None else m key)"

text \<open>
  \<^verbatim>\<open>cache_delete_pattern\<close>: for each prefix the local purge, then the Redis purge inside
  \<^verbatim>\<open>try\<close>/\<^verbatim>\<open>except: pass\<close>. \<open>fails\<close> has one entry per prefix (none left: no failure);
  a purge that fails raises at the scan, before any key is deleted.
\<close>

fun cache_delete_pattern :: "bool list \<Rightarrow> string list \<Rightarrow> cache \<Rightarrow> cache" where
  "cache_delete_pattern fails [] c = c"
| "cache_delete_pattern fails (pre # patterns) c =
     (let c1 = c\<lparr>local_cache := purge pre (local_cache c)\<rparr>;
          c2 = (if redis_client c1 \<and> \<not> (case fails of [] \<Rightarrow> False | f # fs \<Rightarrow> f)
                then c1\<lparr>redis := purge pre (redis c1)\<rparr> else c1)
      in cache_delete_pattern (tl fails) patterns c2)"

definition SERVICE_MAP :: "string \<rightharpoonup> string" where
  "SERVICE_MAP = [''customers'' \<mapsto> ''http://customers:8000'',
                  ''products'' \<mapsto> ''http://products:8000'',
                  ''inventory'' \<mapsto> ''http://inventory:8000'',
                  ''orders'' \<mapsto> ''http://orders:8000'',
                  ''payments'' \<mapsto> ''http://payments:8000'',
                  ''shipments'' \<mapsto> ''http://shipments:8000'']"

definition lstrip_slash :: "string \<Rightarrow> string" where
  "lstrip_slash p = dropWhile (\<lambda>c. c = CHR ''/'') p"

definition rstrip_slash :: "string \<Rightarrow> string" where
  "rstrip_slash p = rev (dropWhile (\<lambda>c. c = CHR ''/'') (rev p))"

definition build_downstream_url :: "string \<Rightarrow> string \<Rightarrow> string \<Rightarrow> string" where
  "build_downstream_url base service path =
     (let normalized_path = lstrip_slash path
      in if normalized_path \<noteq> [] then base @ ''/'' @ service @ ''/'' @ normalized_path
         else base @ ''/'' @ service @ ''/'')"

text \<open>
  The keys: \<^verbatim>\<open>f"rest:GET:{url}:{request.query_params}"\<close> in \<^verbatim>\<open>proxy\<close>, and
  \<^verbatim>\<open>f"gql:{root_field}:{json.dumps(filtered, sort_keys=True)}"\<close> in
  \<^verbatim>\<open>_gql_build_cache_key\<close> (the serialised arguments are a parameter here).
\<close>

definition rest_cache_key :: "string \<Rightarrow> string \<Rightarrow> string" where
  "rest_cache_key url query_params = ''rest:GET:'' @ url @ '':'' @ query_params"

definition gql_build_cache_key :: "string \<Rightarrow> string \<Rightarrow> string" where
  "gql_build_cache_key root_field args = ''gql:'' @ root_field @ '':'' @ args"

text \<open>The prefixes \<^verbatim>\<open>_invalidate_caches\<close> deletes.\<close>

definition list_prefix :: "string \<Rightarrow> string \<Rightarrow> string" where
  "list_prefix service base = ''rest:GET:'' @ base @ ''/'' @ service @ ''/''"

definition detail_prefix :: "string \<Rightarrow> string \<Rightarrow> nat \<Rightarrow> string" where
  "detail_prefix service base entity_id = ''rest:GET:'' @ base @ ''/'' @ service @ ''/'' @ str_nat entity_id"

definition gql_prefix :: "string \<Rightarrow> string" where
  "gql_prefix service = ''gql:'' @ service"

definition invalidate_caches :: "bool list \<Rightarrow> string \<Rightarrow> string \<Rightarrow> nat option \<Rightarrow> cache \<Rightarrow> cache" where
  "invalidate_caches fails service base entity_id c =
     (case entity_id of
        Some eid \<Rightarrow>
          cache_delete_pattern fails
            [detail_prefix service base eid, list_prefix service base, gql_prefix service] c
      | None \<Rightarrow> cache_delete_pattern fails [list_prefix service base, gql_prefix service] c)"

text \<open>
  \<^verbatim>\<open>path.rstrip('/').split('/')[-1]\<close>. A character of a path is a code point up to
  U+00FF. Of these \<^verbatim>\<open>str.isdigit\<close> holds for the ten decimal digits and for the
  superscripts U+00B2, U+00B3 and U+00B9. \<^verbatim>\<open>int\<close> takes decimal digits only, and at
  most 4300 of them (CPython's default limit, leading zeros counted); otherwise it raises
  \<^verbatim>\<open>ValueError\<close>.
\<close>

definition last_segment :: "string \<Rightarrow> string" where
  "last_segment path = rev (takeWhile (\<lambda>c. c \<noteq> CHR ''/'') (rev (rstrip_slash path)))"

definition is_decimal :: "char \<Rightarrow> bool" where
  "is_decimal c = (c \<in> set ''0123456789'')"

definition isdigit :: "string \<Rightarrow> bool" where
  "isdigit s = (s \<noteq> [] \<and> list_all (\<lambda>c. is_decimal c \<or> c \<in> set [CHR 0xB2, CHR 0xB3, CHR 0xB9]) s)"

definition int_of_digits :: "string \<Rightarrow> nat" where
  "int_of_digits s = fold (\<lambda>c n. 10 * n + (of_char c - 48)) s 0"

definition py_int_of_str :: "string \<Rightarrow> string + nat" where
  "py_int_of_str s =
     (if list_all is_decimal s \<and> length s \<le> 4300 then Inr (int_of_digits s)
      else Inl ''ValueError'')"

text \<open>
  The entity id \<^verbatim>\<open>proxy\<close> takes from the path: \<^verbatim>\<open>None\<close> when the last segment is not
  all digits, and the \<^verbatim>\<open>ValueError\<close> of the unguarded \<^verbatim>\<open>int(last_segment)\<close>.
\<close>

definition parse_entity_id :: "string \<Rightarrow> string + nat option" where
  "parse_entity_id path =
     (let seg = last_segment path
      in if isdigit seg
         then (case py_int_of_str seg of Inl e \<Rightarrow> Inl e | Inr n \<Rightarrow> Inr (Some n))
         else Inr None)"

definition int_raises :: "string \<Rightarrow> bool" where
  "int_raises path = (case parse_entity_id path of Inl e \<Rightarrow> True | Inr eid \<Rightarrow> False)"

text \<open>
  What the downstream service answers, or the exception \<^verbatim>\<open>client.request\<close> raises.
  \<open>json_body\<close> is what \<^verbatim>\<open>resp.json()\<close> returns, \<open>None\<close> when it raises.
\<close>

record response =
  status_code :: nat
  content_type :: string
  json_body :: "json option"
  text_body :: string

datatype proxy_result = Payload json | NoContent | Text string

datatype gateway_error = Http http_exception | Raised string

text \<open>
  \<^verbatim>\<open>proxy\<close>. \<open>get_fails\<close>, \<open>set_fails\<close> and \<open>purge_fails\<close> say which Redis operations of
  this call raise. A cached \<^verbatim>\<open>None\<close> counts as a miss. After a successful mutation
  the entity id is parsed before \<^verbatim>\<open>_invalidate_caches\<close> is called; when \<^verbatim>\<open>int\<close>
  raises, the exception leaves the handler and nothing is invalidated.
\<close>

definition is_mutating :: "string \<Rightarrow> bool" where
  "is_mutating method = (method \<in> set [''POST'', ''PUT'', ''PATCH'', ''DELETE''])"

definition proxy ::
  "bool \<Rightarrow> bool \<Rightarrow> bool list \<Rightarrow> string \<Rightarrow> string \<Rightarrow> string \<Rightarrow> string \<Rightarrow> (string + response) \<Rightarrow> cache
     \<Rightarrow> (gateway_error + proxy_result) \<times> cache" where
  "proxy get_fails set_fails purge_fails service path method query_params downstream c =
     (case SERVICE_MAP service of
        None \<Rightarrow> (Inl (Http (HTTPException 404 ''Unknown service'')), c)
      | Some base \<Rightarrow>
          (let url = build_downstream_url base service path;
               is_get = (method = ''GET'');
               cache_key = rest_cache_key url query_params;
               cached = (if is_get then cache_get get_fails cache_key c else JNull)
           in if cached \<noteq> JNull then (Inr (Payload cached), c)
              else
                (case downstream of
                   Inl e \<Rightarrow> (Inl (Raised e), c)
                 | Inr resp \<Rightarrow>
                     (case (if is_mutating method \<and> status_code resp < 400
                            then (case parse_entity_id path of
                                    Inl e \<Rightarrow> Inl e
                                  | Inr entity_id \<Rightarrow>
                                      Inr (invalidate_caches purge_fails service base entity_id c))
                            else Inr c) of
                        Inl e \<Rightarrow> (Inl (Raised e), c)
                      | Inr c1 \<Rightarrow>
                          if status_code resp = 204 then (Inr NoContent, c1)
                          else if startswith (content_type resp) ''application/json''
                          then (case json_body resp of
                                  None \<Rightarrow> (Inl (Raised ''JSONDecodeError''), c1)
                                | Some d \<Rightarrow>
                                    (Inr (Payload d),
                                     if is_get then cache_set set_fails cache_key d c1 else c1))
                          else (Inr (Text (text_body resp)), c1)))))"

section \<open>Scenarios\<close>

text \<open>
  Concrete data for the scenarios the properties below are run on: one customer, one
  order, an administrator, and the two request bodies of the saga.
\<close>

definition alice :: customer where
  "alice = \<lparr>c_id = 1, name = ''Alice'', email = ''alice@example.com'', phone = None,
            address_street = Some ''1 Main St'', address_city = Some ''Springfield'',
            address_state = Some ''IL'', address_zip = Some ''62701'',
            address_country = Some ''USA''\<rparr>"

definition order_pending :: order where
  "order_pending = \<lparr>order_number = ''ORD-2025-00001'', customer_id = 1, order_status = ''PENDING'',
                    payment_status = ''PENDING'', payment_id = None, receipt_id = None, items = []\<rparr>"

definition order_declined :: order where
  "order_declined = order_pending\<lparr>order_status := ''CANCELLED'', payment_status := ''FAILED''\<rparr>"

definition order_approved :: order where
  "order_approved = order_pending\<lparr>order_status := ''PROCESSING'', payment_status := ''COMPLETED''\<rparr>"

definition shipment_pending :: shipment where
  "shipment_pending = \<lparr>s_id = 1, s_order_id = 1, carrier = ''Standard Delivery'',
                       status = ''PENDING'', tracking_no = ''TRK1900'', shipped_at = ''900'',
                       delivered_at = None\<rparr>"

definition world_of :: "order \<Rightarrow> shipment list \<Rightarrow> world" where
  "world_of ord ships = \<lparr>orders_db = [1 \<mapsto> ord], shipments_db = ships, customers_db = [alice],
                         recent_activity = [], clock = 1000, faults = [], trace = []\<rparr>"

definition admin :: user where
  "admin = \<lparr>username = ''admin'', role = ''admin''\<rparr>"

definition approve :: payment_action where
  "approve = \<lparr>action = Some ''approve'', pa_payment_id = None, pa_receipt_id = None\<rparr>"

definition ship :: order_update where
  "ship = \<lparr>u_order_status = Some ''SHIPPED'', u_payment_status = None, u_payment_id = None,
           u_receipt_id = None\<rparr>"

definition json_ok :: response where
  "json_ok = \<lparr>status_code = 200, content_type = ''application/json'',
              json_body = Some (JValue ''{}''), text_body = ''{}''\<rparr>"

definition stale_cache :: cache where
  "stale_cache = \<lparr>redis_client = True,
                  redis = [''rest:GET:http://orders:8000/orders/:'' \<mapsto> Dumps (JValue ''[5, 7]'')],
                  local_cache = Map.empty\<rparr>"

definition negative_jitter :: settings where
  "negative_jitter = load_settings 2 2 30 (- 5)"

section \<open>Orders service: the guard on finalized payments\<close>

text \<open>
  C8. Once an order's payment status is COMPLETED or FAILED, the orders service answers
  403 and leaves the table as it was, both for every update that touches
  \<^verbatim>\<open>payment_status\<close>, \<^verbatim>\<open>payment_id\<close> or \<^verbatim>\<open>receipt_id\<close> and for every delete of that
  order; an update that touches none of the three is carried out: it returns the row with
  the new order status and stores it.
\<close>

theorem finalized_order_guard:
  assumes "db oid = Some ord" and "payment_finalized ord"
  shows "update_order oid payload db =
           (if touching_payment_fields payload
            then (Inl (HTTPException 403
                    ''Cannot modify payment fields after payment has been completed or failed''), db)
            else (Inr (Some (ord\<lparr>order_status := set_if (u_order_status payload) (order_status ord)\<rparr>)),
                  db(oid \<mapsto> ord\<lparr>order_status := set_if (u_order_status payload) (order_status ord)\<rparr>)))
       \<and> delete_order oid db =
            (Inl (HTTPException 403
               ''Cannot delete order after payment has been completed or failed''), db)"
  using assms
  by (auto simp: update_order_def delete_order_def OrderService_update_def
      apply_order_update_def touching_payment_fields_def set_if_def Let_def)

theorem finalized_order_guard_witness:
  "update_order 7
      \<lparr>u_order_status = None, u_payment_status = Some ''PENDING'', u_payment_id = None,
       u_receipt_id = None\<rparr>
      [7 \<mapsto> \<lparr>order_number = ''ORD-2025-00001'', customer_id = 1, order_status = ''PROCESSING'',
              payment_status = ''COMPLETED'', payment_id = None, receipt_id = None, items = []\<rparr>]
    = (Inl (HTTPException 403
         ''Cannot modify payment fields after payment has been completed or failed''),
       [7 \<mapsto> \<lparr>order_number = ''ORD-2025-00001'', customer_id = 1, order_status = ''PROCESSING'',
              payment_status = ''COMPLETED'', payment_id = None, receipt_id = None, items = []\<rparr>])
   \<and> delete_order 7
      [7 \<mapsto> \<lparr>order_number = ''ORD-2025-00001'', customer_id = 1, order_status = ''PROCESSING'',
              payment_status = ''COMPLETED'', payment_id = None, receipt_id = None, items = []\<rparr>]
    = (Inl (HTTPException 403
         ''Cannot delete order after payment has been completed or failed''),
       [7 \<mapsto> \<lparr>order_number = ''ORD-2025-00001'', customer_id = 1, order_status = ''PROCESSING'',
              payment_status = ''COMPLETED'', payment_id = None, receipt_id = None, items = []\<rparr>])"
  using finalized_order_guard [of
      "[7 \<mapsto> \<lparr>order_number = ''ORD-2025-00001'', customer_id = 1, order_status = ''PROCESSING'',
              payment_status = ''COMPLETED'', payment_id = None, receipt_id = None, items = []\<rparr>]"
      7
      "\<lparr>order_number = ''ORD-2025-00001'', customer_id = 1, order_status = ''PROCESSING'',
              payment_status = ''COMPLETED'', payment_id = None, receipt_id = None, items = []\<rparr>"
      "\<lparr>u_order_status = None, u_payment_status = Some ''PENDING'', u_payment_id = None,
       u_receipt_id = None\<rparr>"]
  by (simp add: payment_finalized_def touching_payment_fields_def)

section \<open>Health monitor: backoff and the skip window\<close>

lemma load_settings_bounds:
  "0 < POLL_INTERVAL_SEC (load_settings p f m j)"
  "POLL_INTERVAL_SEC (load_settings p f m j) \<le> BACKOFF_MAX_SEC (load_settings p f m j)"
  by (simp_all add: load_settings_def)

lemma next_backoff_inv:
  assumes "0 < POLL_INTERVAL_SEC cfg" "POLL_INTERVAL_SEC cfg \<le> BACKOFF_MAX_SEC cfg"
    and "POLL_INTERVAL_SEC cfg \<le> b" "b \<le> BACKOFF_MAX_SEC cfg"
    and "BACKOFF_FACTOR cfg < 1 \<longrightarrow> b = POLL_INTERVAL_SEC cfg"
  shows "POLL_INTERVAL_SEC cfg \<le> next_backoff cfg b"
    and "next_backoff cfg b \<le> BACKOFF_MAX_SEC cfg"
    and "BACKOFF_FACTOR cfg < 1 \<longrightarrow> next_backoff cfg b = POLL_INTERVAL_SEC cfg"
    and "b \<le> next_backoff cfg b"
proof -
  show "POLL_INTERVAL_SEC cfg \<le> next_backoff cfg b"
    using assms by (simp add: next_backoff_def)
  show "next_backoff cfg b \<le> BACKOFF_MAX_SEC cfg"
    by (simp add: next_backoff_def)
  show "BACKOFF_FACTOR cfg < 1 \<longrightarrow> next_backoff cfg b = POLL_INTERVAL_SEC cfg"
  proof
    assume f: "BACKOFF_FACTOR cfg < 1"
    then have b: "b = POLL_INTERVAL_SEC cfg" using assms by simp
    have "b * BACKOFF_FACTOR cfg \<le> b * 1"
      using f assms(1) b by (intro mult_left_mono) simp_all
    then show "next_backoff cfg b = POLL_INTERVAL_SEC cfg"
      using b assms(2) by (simp add: next_backoff_def max_def min_def)
  qed
  show "b \<le> next_backoff cfg b"
  proof (cases "BACKOFF_FACTOR cfg < 1")
    case True
    then show ?thesis
      using \<open>BACKOFF_FACTOR cfg < 1 \<longrightarrow> next_backoff cfg b = POLL_INTERVAL_SEC cfg\<close> assms by simp
  next
    case False
    have "0 \<le> b" using assms by linarith
    then have "b * 1 \<le> b * BACKOFF_FACTOR cfg"
      using False by (intro mult_left_mono) simp_all
    then have le: "b \<le> b * BACKOFF_FACTOR cfg" by simp
    show ?thesis unfolding next_backoff_def using le assms(3,4) by linarith
  qed
qed

lemma backoff_of_check:
  "backoff_sec (fst (check_service cfg now url pr rnd st)) =
     (if now < next_check_at st then backoff_sec st
      else if probe_ok pr \<and> 0 \<le> BACKOFF_JITTER_MS cfg then POLL_INTERVAL_SEC cfg
      else if probe_ok pr then next_backoff cfg (POLL_INTERVAL_SEC cfg)
      else if 0 \<le> BACKOFF_JITTER_MS cfg then next_backoff cfg (backoff_sec st)
      else (case pr of Response c r b \<Rightarrow> next_backoff cfg (next_backoff cfg (backoff_sec st))
            | _ \<Rightarrow> next_backoff cfg (backoff_sec st)))"
  by (cases pr) (auto simp: check_service_def on_exception_def randint_def schedule_def Let_def
      split: prod.splits sum.splits)


lemma backoff_inv_initial: "backoff_inv (load_settings p f m j) (initial_state (load_settings p f m j))"
  by (simp add: backoff_inv_def initial_state_def load_settings_def)

lemma backoff_inv_step:
  assumes cfg: "cfg = load_settings p f m j" and inv: "backoff_inv cfg st"
  shows "backoff_inv cfg (fst (check_service cfg now url pr rnd st))"
proof -
  have pos: "0 < POLL_INTERVAL_SEC cfg" and le: "POLL_INTERVAL_SEC cfg \<le> BACKOFF_MAX_SEC cfg"
    using cfg load_settings_bounds by simp_all
  have poll: "backoff_inv cfg (st'\<lparr>backoff_sec := POLL_INTERVAL_SEC cfg\<rparr>)" for st'
    using le by (simp add: backoff_inv_def)
  have nb: "backoff_inv cfg (st'\<lparr>backoff_sec := next_backoff cfg b\<rparr>)"
    if "backoff_inv cfg (st'\<lparr>backoff_sec := b\<rparr>)" for st' b
    using that next_backoff_inv [OF pos le, of b] by (simp add: backoff_inv_def)
  have inv': "backoff_inv cfg (st\<lparr>backoff_sec := backoff_sec st\<rparr>)" using inv by simp
  have only: "backoff_inv cfg (fst (check_service cfg now url pr rnd st)) =
              backoff_inv cfg (st\<lparr>backoff_sec := backoff_sec (fst (check_service cfg now url pr rnd st))\<rparr>)"
    by (simp add: backoff_inv_def)
  show ?thesis
    unfolding only backoff_of_check
    using poll nb inv' by (auto split: probe.splits)
qed

lemma backoff_inv_run:
  assumes "cfg = load_settings p f m j" and "backoff_inv cfg st"
  shows "backoff_inv cfg (monitor_run cfg url evs st)"
  using assms(2)
proof (induction evs arbitrary: st)
  case Nil
  then show ?case by simp
next
  case (Cons ev evs)
  obtain now pr rnd where ev: "ev = (now, pr, rnd)" by (cases ev) auto
  show ?case
    unfolding ev monitor_run.simps
    by (rule Cons.IH) (rule backoff_inv_step [OF assms(1) Cons.prems])
qed

text \<open>
  What the monitor does when the jitter setting is not negative (the default is 250).
  For every record the monitor can reach from the initial one, a probe that is due and
  fails (connection error, timeout, any other exception, or a response whose status is
  not 200) sets the backoff to
  \<open>min BACKOFF_MAX_SEC (max POLL_INTERVAL_SEC (backoff * BACKOFF_FACTOR))\<close>; the new value
  is not below the old one and not above \<open>BACKOFF_MAX_SEC\<close>. A probe answered with 200
  resets the backoff to \<open>POLL_INTERVAL_SEC\<close>.
\<close>

theorem backoff_law:
  assumes cfg: "cfg = load_settings p f m j"
    and jit: "0 \<le> BACKOFF_JITTER_MS cfg"
    and st: "st = monitor_run cfg url evs (initial_state cfg)"
    and due: "\<not> now < next_check_at st"
  shows "if probe_ok pr
         then backoff_sec (fst (check_service cfg now url pr rnd st)) = POLL_INTERVAL_SEC cfg
         else backoff_sec (fst (check_service cfg now url pr rnd st)) =
                min (BACKOFF_MAX_SEC cfg) (max (POLL_INTERVAL_SEC cfg) (backoff_sec st * BACKOFF_FACTOR cfg))
            \<and> backoff_sec st \<le> backoff_sec (fst (check_service cfg now url pr rnd st))
            \<and> backoff_sec (fst (check_service cfg now url pr rnd st)) \<le> BACKOFF_MAX_SEC cfg"
proof -
  have inv: "backoff_inv cfg st"
    unfolding st using cfg backoff_inv_initial backoff_inv_run by blast
  have pos: "0 < POLL_INTERVAL_SEC cfg" and le: "POLL_INTERVAL_SEC cfg \<le> BACKOFF_MAX_SEC cfg"
    using cfg load_settings_bounds by simp_all
  have mono: "backoff_sec st \<le> next_backoff cfg (backoff_sec st)"
    and bound: "next_backoff cfg (backoff_sec st) \<le> BACKOFF_MAX_SEC cfg"
    using next_backoff_inv [OF pos le, of "backoff_sec st"] inv by (simp_all add: backoff_inv_def)
  show ?thesis
    unfolding backoff_of_check using jit due mono bound by (simp add: next_backoff_def)
qed


theorem backoff_law_witness:
  "0 \<le> BACKOFF_JITTER_MS (load_settings 2 2 30 250)
   \<and> \<not> 5 < next_check_at (monitor_run (load_settings 2 2 30 250) ''http://orders:8000''
                            [(0, ConnectError, 250)] (initial_state (load_settings 2 2 30 250)))
   \<and> backoff_sec (monitor_run (load_settings 2 2 30 250) ''http://orders:8000''
                            [(0, ConnectError, 250)] (initial_state (load_settings 2 2 30 250))) = 4
   \<and> backoff_sec (fst (check_service (load_settings 2 2 30 250) 5 ''http://orders:8000''
        (Response 503 12 None) 17
        (monitor_run (load_settings 2 2 30 250) ''http://orders:8000''
                            [(0, ConnectError, 250)] (initial_state (load_settings 2 2 30 250))))) = 8
   \<and> backoff_sec (fst (check_service (load_settings 2 2 30 250) 5 ''http://orders:8000''
        (Response 200 12 None) 17
        (monitor_run (load_settings 2 2 30 250) ''http://orders:8000''
                            [(0, ConnectError, 250)] (initial_state (load_settings 2 2 30 250))))) = 2"
proof -
  have run: "monitor_run (load_settings 2 2 30 250) ''http://orders:8000''
               [(0, ConnectError, 250)] (initial_state (load_settings 2 2 30 250))
             = \<lparr>last_status = Some ''error'', last_response_time_ms = None, last_version = None,
                last_releaseId = None, backoff_sec = 4, next_check_at = 4\<rparr>"
    by (simp add: check_service_def on_exception_def randint_def schedule_def next_backoff_def
        load_settings_def initial_state_def py_int_def)
  have j: "0 \<le> BACKOFF_JITTER_MS (load_settings 2 2 30 250)"
    by (simp add: load_settings_def py_int_def)
  have due: "\<not> 5 < next_check_at (monitor_run (load_settings 2 2 30 250) ''http://orders:8000''
                            [(0, ConnectError, 250)] (initial_state (load_settings 2 2 30 250)))"
    unfolding run by simp
  show ?thesis
    using backoff_law [OF refl j refl due, of "Response 503 12 None" 17]
      backoff_law [OF refl j refl due, of "Response 200 12 None" 17] j due
    unfolding run by (simp add: load_settings_def)
qed

text \<open>
  C6: the code at the failing input. \<^verbatim>\<open>BACKOFF_JITTER_MS\<close> is read from the
  environment without a bound (the poll interval and the maximum are clamped), here
  \<open>-5\<close>, with poll interval 2, factor 2 and maximum 30. \<^verbatim>\<open>random.randint(5, -5)\<close>
  raises inside the \<^verbatim>\<open>try\<close>, the \<^verbatim>\<open>except Exception\<close> clause applies the factor and
  raises again. A probe answered with 200 leaves the backoff at 4, not at the poll
  interval 2; a probe answered with 503 leaves it at 8, not at
  \<open>min 30 (max 2 (2 * 2)) = 4\<close>; and the exception leaves \<^verbatim>\<open>fetch_metrics\<close>.
\<close>

theorem negative_jitter_breaks_backoff:
  "BACKOFF_JITTER_MS negative_jitter = - 5
   \<and> POLL_INTERVAL_SEC negative_jitter = 2
   \<and> backoff_sec (initial_state negative_jitter) = 2
   \<and> backoff_sec (fst (check_service negative_jitter 0 ''http://orders:8000''
                          (Response 200 12 None) 0 (initial_state negative_jitter))) = 4
   \<and> isl (fst (snd (check_service negative_jitter 0 ''http://orders:8000''
                       (Response 200 12 None) 0 (initial_state negative_jitter))))
   \<and> min (BACKOFF_MAX_SEC negative_jitter)
         (max (POLL_INTERVAL_SEC negative_jitter)
            (backoff_sec (initial_state negative_jitter) * BACKOFF_FACTOR negative_jitter)) = 4
   \<and> backoff_sec (fst (check_service negative_jitter 0 ''http://orders:8000''
                          (Response 503 12 None) 0 (initial_state negative_jitter))) = 8"
  by (simp add: negative_jitter_def load_settings_def py_int_def initial_state_def
      check_service_def on_exception_def randint_def next_backoff_def)

lemma recorded_inv_step:
  assumes "recorded_inv st" and "0 \<le> now"
  shows "recorded_inv (fst (check_service cfg now url pr rnd st))"
  using assms
  by (cases pr)
    (auto simp: recorded_inv_def check_service_def on_exception_def schedule_def Let_def
      split: sum.splits prod.splits)

lemma recorded_inv_run:
  assumes "recorded_inv st"
  shows "recorded_inv (monitor_run cfg url evs st)"
  using assms
proof (induction evs arbitrary: st)
  case Nil
  then show ?case by simp
next
  case (Cons ev evs)
  obtain now pr rnd where ev: "ev = (now, pr, rnd)" by (cases ev) auto
  have "recorded_inv (fst (check_service cfg (max 0 now) url pr rnd st))"
    by (rule recorded_inv_step [OF Cons.prems]) simp
  then show ?case unfolding ev monitor_run.simps by (rule Cons.IH)
qed

text \<open>
  C7. For every tracked service, when the monitor is consulted at a time \<open>now\<close> before
  \<open>next_check_at\<close>, it returns the recorded status, latency, version and releaseId,
  issues no request, and leaves the whole record (backoff and next check time included)
  as it was. In every record the monitor can reach, a record inside its window has one
  of the statuses healthy, unhealthy or error recorded, so the \<^verbatim>\<open>or "unknown"\<close> of the
  source does not apply there.
\<close>

theorem skip_inside_window:
  assumes st: "st = monitor_run cfg url evs (initial_state cfg)"
    and now: "0 \<le> now" and window: "now < next_check_at st"
  shows "\<exists>s. last_status st = Some s \<and> s \<in> set [''healthy'', ''unhealthy'', ''error'']
           \<and> check_service cfg now url pr rnd st =
               (st, Inr \<lparr>m_status = s, m_response_time_ms = last_response_time_ms st,
                         m_version = last_version st, m_releaseId = last_releaseId st,
                         m_error = None\<rparr>, [])"
proof -
  have "recorded_inv (initial_state cfg)" by (simp add: recorded_inv_def initial_state_def)
  then have "recorded_inv st" unfolding st by (rule recorded_inv_run)
  then have "last_status st \<in> {Some ''healthy'', Some ''unhealthy'', Some ''error''}"
    using now window by (simp add: recorded_inv_def)
  then show ?thesis
    using window by (auto simp: check_service_def or_default_def)
qed

theorem skip_inside_window_witness:
  "(0::real) \<le> 3
   \<and> 3 < next_check_at (monitor_run (load_settings 2 2 30 250) ''http://orders:8000''
                            [(0, ConnectError, 250)] (initial_state (load_settings 2 2 30 250)))
   \<and> check_service (load_settings 2 2 30 250) 3 ''http://orders:8000'' (Response 200 12 None) 17
        (monitor_run (load_settings 2 2 30 250) ''http://orders:8000''
                            [(0, ConnectError, 250)] (initial_state (load_settings 2 2 30 250)))
     = (\<lparr>last_status = Some ''error'', last_response_time_ms = None, last_version = None,
         last_releaseId = None, backoff_sec = 4, next_check_at = 4\<rparr>,
        Inr \<lparr>m_status = ''error'', m_response_time_ms = None, m_version = None,
             m_releaseId = None, m_error = None\<rparr>, [])"
proof -
  have run: "monitor_run (load_settings 2 2 30 250) ''http://orders:8000''
               [(0, ConnectError, 250)] (initial_state (load_settings 2 2 30 250))
             = \<lparr>last_status = Some ''error'', last_response_time_ms = None, last_version = None,
                last_releaseId = None, backoff_sec = 4, next_check_at = 4\<rparr>"
    by (simp add: check_service_def on_exception_def randint_def schedule_def next_backoff_def
        load_settings_def initial_state_def py_int_def)
  have window: "3 < next_check_at (monitor_run (load_settings 2 2 30 250) ''http://orders:8000''
                            [(0, ConnectError, 250)] (initial_state (load_settings 2 2 30 250)))"
    unfolding run by simp
  have now: "(0::real) \<le> 3" by simp
  show ?thesis
    using skip_inside_window [OF refl now window, of "Response 200 12 None" 17] window
    unfolding run by simp
qed

section \<open>Saga: what the handlers return\<close>

lemma returns_bind: "(\<And>x. returns P (f x)) \<Longrightarrow> returns P (bind_io m f)"
  by (auto simp: returns_def bind_io_def split: prod.splits sum.splits)

lemma returns_ret: "P x \<Longrightarrow> returns P (ret x)"
  by (simp add: returns_def ret_def)

lemma returnsD: "returns P m \<Longrightarrow> m w = (Inr x, w') \<Longrightarrow> P x"
  by (auto simp: returns_def)

lemma returns_if: "(c \<Longrightarrow> returns P a) \<Longrightarrow> (\<not> c \<Longrightarrow> returns P b) \<Longrightarrow> returns P (if c then a else b)"
  by simp

lemma process_payment_try_returns: "returns well_formed (process_payment_try oid pa usr)"
  unfolding process_payment_try_def
  by (intro returns_if returns_bind returns_ret) (simp_all add: well_formed_def)

lemma update_order_status_try_returns: "returns well_formed (update_order_status_try oid sd usr)"
  unfolding update_order_status_try_def after_order_update_def Let_def
  by (intro returns_if returns_bind returns_ret) (simp_all add: well_formed_def failure_def)

text \<open>
  C9. For every request of an administrator, whatever the downstream calls answer and
  whichever of them raise, the payment endpoint and the order status endpoint return an
  envelope, never an exception: a success flag, with a message when it is true and an
  error when it is false.
\<close>

theorem trigger_endpoints_return_envelope:
  assumes "role usr = ADMIN"
  shows "(\<exists>env. fst (process_payment oid pa usr w) = Inr env \<and> well_formed env)
       \<and> (\<exists>env. fst (update_order_status oid sd usr w) = Inr env \<and> well_formed env)"
proof
  show "\<exists>env. fst (process_payment oid pa usr w) = Inr env \<and> well_formed env"
  proof (cases "process_payment_try oid pa usr w")
    case (Pair r w')
    then show ?thesis
      using assms returnsD [OF process_payment_try_returns, of oid pa usr w _ w']
      by (cases r) (auto simp: process_payment_def well_formed_def failure_def)
  qed
  show "\<exists>env. fst (update_order_status oid sd usr w) = Inr env \<and> well_formed env"
  proof (cases "update_order_status_try oid sd usr w")
    case (Pair r w')
    then show ?thesis
      using assms returnsD [OF update_order_status_try_returns, of oid sd usr w _ w']
      by (cases r) (auto simp: update_order_status_def well_formed_def failure_def)
  qed
qed

theorem trigger_endpoints_return_envelope_witness:
  "role admin = ADMIN
   \<and> (\<exists>env. fst (process_payment 1 approve admin
                     ((world_of order_pending [])\<lparr>faults := [FOk, FRaise ''ConnectTimeout'']\<rparr>)) = Inr env
            \<and> well_formed env)
   \<and> (\<exists>env. fst (update_order_status 1 ship admin
                     ((world_of order_pending [])\<lparr>faults := [FOk, FRaise ''ConnectTimeout'']\<rparr>)) = Inr env
            \<and> well_formed env)"
proof -
  have adm: "role admin = ADMIN" by (simp add: admin_def ADMIN_def)
  show ?thesis
    by (rule conjI [OF adm trigger_endpoints_return_envelope [OF adm]])
qed

section \<open>Saga: the order of the requests\<close>

lemma emitsD: "emits ok m \<Longrightarrow> m w = (r, w') \<Longrightarrow> \<exists>rest. trace w' = trace w @ rest \<and> list_all ok rest"
  by (simp add: emits_def)

lemma emits_bind:
  assumes m: "emits ok m" and f: "\<And>x. emits ok (f x)"
  shows "emits ok (bind_io m f)"
  unfolding emits_def
proof (intro allI impI)
  fix w r w'
  assume run: "bind_io m f w = (r, w')"
  obtain r1 w1 where m1: "m w = (r1, w1)" by (cases "m w") auto
  obtain rest1 where t1: "trace w1 = trace w @ rest1" and ok1: "list_all ok rest1"
    using emitsD [OF m m1] by auto
  show "\<exists>rest. trace w' = trace w @ rest \<and> list_all ok rest"
  proof (cases r1)
    case (Inl e)
    then have "w' = w1" using run m1 by (simp add: bind_io_def)
    then show ?thesis using t1 ok1 by auto
  next
    case (Inr x)
    then have "f x w1 = (r, w')" using run m1 by (simp add: bind_io_def)
    then obtain rest2 where t2: "trace w' = trace w1 @ rest2" and ok2: "list_all ok rest2"
      using emitsD [OF f] by blast
    have "trace w' = trace w @ (rest1 @ rest2)" using t1 t2 by simp
    moreover have "list_all ok (rest1 @ rest2)" using ok1 ok2 by simp
    ultimately show ?thesis by blast
  qed
qed

lemma emits_ret: "emits ok (ret x)"
  by (simp add: emits_def ret_def)

lemma emits_if: "(c \<Longrightarrow> emits ok a) \<Longrightarrow> (\<not> c \<Longrightarrow> emits ok b) \<Longrightarrow> emits ok (if c then a else b)"
  by simp

lemma emits_catch_all: "emits ok m \<Longrightarrow> emits ok (catch_all m)"
  by (fastforce simp: emits_def catch_all_def split: prod.splits sum.splits)

lemma emits_json_of: "emits ok (json_of resp)"
  by (auto simp: emits_def json_of_def ret_def split: option.splits)

lemma emits_utcnow: "emits ok utcnow"
  by (simp add: emits_def utcnow_def)

lemma emits_add_activity: "emits ok (add_activity a b c d e)"
  by (simp add: emits_def add_activity_def Let_def)

lemma send_trace: "send rq w = (f, w1) \<Longrightarrow> trace w1 = trace w @ [rq]"
  by (auto simp: send_def Let_def split: list.splits)

lemma send_keeps: "send rq w = (f, w1) \<Longrightarrow>
  orders_db w1 = orders_db w \<and> shipments_db w1 = shipments_db w \<and> clock w1 = clock w"
  by (auto simp: send_def Let_def split: list.splits)

lemma client_get_order_trace: "client_get_order oid w = (r, w') \<Longrightarrow> trace w' = trace w @ [GET_order oid]"
  by (auto simp: client_get_order_def split: prod.splits fault.splits sum.splits http_exception.splits
      dest: send_trace)

lemma client_put_order_trace: "client_put_order oid p w = (r, w') \<Longrightarrow> trace w' = trace w @ [PUT_order oid p]"
  by (auto simp: client_put_order_def split: prod.splits fault.splits sum.splits http_exception.splits
      dest: send_trace)

lemma client_get_shipments_trace: "client_get_shipments w = (r, w') \<Longrightarrow> trace w' = trace w @ [GET_shipments]"
  by (auto simp: client_get_shipments_def split: prod.splits fault.splits dest: send_trace)

lemma client_get_customers_trace: "client_get_customers w = (r, w') \<Longrightarrow> trace w' = trace w @ [GET_customers]"
  by (auto simp: client_get_customers_def split: prod.splits fault.splits dest: send_trace)

lemma client_post_shipment_trace: "client_post_shipment p w = (r, w') \<Longrightarrow> trace w' = trace w @ [POST_shipment p]"
  by (auto simp: client_post_shipment_def split: prod.splits fault.splits dest: send_trace)

lemma client_put_shipment_trace: "client_put_shipment sid p w = (r, w') \<Longrightarrow> trace w' = trace w @ [PUT_shipment sid p]"
  by (auto simp: client_put_shipment_def split: prod.splits fault.splits sum.splits http_exception.splits
      dest: send_trace)

lemma emits_client_get_order: "ok (GET_order oid) \<Longrightarrow> emits ok (client_get_order oid)"
  by (auto simp: emits_def dest: client_get_order_trace)

lemma emits_client_get_shipments: "ok GET_shipments \<Longrightarrow> emits ok client_get_shipments"
  by (auto simp: emits_def dest: client_get_shipments_trace)

lemma emits_client_get_customers: "ok GET_customers \<Longrightarrow> emits ok client_get_customers"
  by (auto simp: emits_def dest: client_get_customers_trace)

lemma emits_client_post_shipment: "ok (POST_shipment p) \<Longrightarrow> emits ok (client_post_shipment p)"
  by (auto simp: emits_def dest: client_post_shipment_trace)

lemma emits_client_put_shipment: "ok (PUT_shipment sid p) \<Longrightarrow> emits ok (client_put_shipment sid p)"
  by (auto simp: emits_def dest: client_put_shipment_trace)

lemmas emits_intros = emits_bind emits_ret emits_if emits_catch_all emits_json_of emits_utcnow
  emits_add_activity emits_client_get_order emits_client_get_shipments emits_client_get_customers
  emits_client_post_shipment emits_client_put_shipment

lemma emits_case_option:
  "emits ok a \<Longrightarrow> (\<And>x. emits ok (f x)) \<Longrightarrow> emits ok (case v of None \<Rightarrow> a | Some x \<Rightarrow> f x)"
  by (cases v) simp_all

lemma emits_fetch_customer: "emits (\<lambda>r. \<not> is_order_write r) (fetch_customer cid)"
  unfolding fetch_customer_def by (intro emits_intros) simp_all

lemma emits_shipped_branch: "emits (\<lambda>r. \<not> is_order_write r) (shipped_branch oid os usr)"
  unfolding shipped_branch_def Let_def
  by (intro emits_intros emits_case_option emits_fetch_customer) simp_all

lemma emits_delivered_branch: "emits (\<lambda>r. \<not> is_order_write r) (delivered_branch oid s usr)"
  unfolding delivered_branch_def by (intro emits_intros) simp_all

lemma emits_cancel_shipment: "emits (\<lambda>r. \<not> is_order_write r) (cancel_shipment s usr d)"
  unfolding cancel_shipment_def by (intro emits_intros) simp_all

lemma emits_handle_shipment: "emits (\<lambda>r. \<not> is_order_write r) (handle_shipment oid ns usr)"
  unfolding handle_shipment_def Let_def
  by (intro emits_intros emits_case_option emits_shipped_branch emits_delivered_branch
      emits_cancel_shipment) simp_all

lemma emits_after_order_update:
  "emits (\<lambda>r. \<not> is_order_write r) (after_order_update oid sd usr response)"
  unfolding after_order_update_def Let_def
  by (intro emits_intros emits_handle_shipment)

text \<open>
  C5, as the code has it. Within every order status change of an administrator, the
  write of the order is the first request issued and the only write of an order; every
  request to the shipments service comes after it, and is issued only when the write
  was answered with 200. (The specification has the order write last; the
  counterexample below shows a shipment write after it.)
\<close>

theorem order_write_comes_first:
  assumes "role usr = ADMIN"
  shows "\<exists>rest. trace (snd (update_order_status oid sd usr w)) = trace w @ PUT_order oid sd # rest
           \<and> list_all (\<lambda>r. \<not> is_order_write r) rest
           \<and> (answered 200 (fst (client_put_order oid sd w)) \<or> rest = [])"
proof -
  obtain r1 w1 where put: "client_put_order oid sd w = (r1, w1)"
    by (cases "client_put_order oid sd w") auto
  have t1: "trace w1 = trace w @ [PUT_order oid sd]"
    using client_put_order_trace [OF put] .
  show ?thesis
  proof (cases r1)
    case (Inl e)
    then have "snd (update_order_status oid sd usr w) = w1"
      using assms put by (simp add: update_order_status_def update_order_status_try_def bind_io_def)
    then show ?thesis using t1 by simp
  next
    case (Inr response)
    obtain r2 w2 where after: "after_order_update oid sd usr response w1 = (r2, w2)"
      by (cases "after_order_update oid sd usr response w1") auto
    have w2: "snd (update_order_status oid sd usr w) = w2"
      using assms put Inr after
      by (cases r2) (simp_all add: update_order_status_def update_order_status_try_def bind_io_def)
    obtain rest where t2: "trace w2 = trace w1 @ rest" and ok: "list_all (\<lambda>r. \<not> is_order_write r) rest"
      using emitsD [OF emits_after_order_update after] by auto
    have "answered 200 (fst (client_put_order oid sd w)) \<or> rest = []"
    proof (cases "fst response = 200")
      case True
      then show ?thesis using put Inr by (simp add: answered_def)
    next
      case False
      then have "w2 = w1" using after by (simp add: after_order_update_def ret_def)
      then show ?thesis using t2 by simp
    qed
    then show ?thesis using w2 t1 t2 ok by simp
  qed
qed

theorem order_write_comes_first_witness:
  "role admin = ADMIN
   \<and> (\<exists>rest. trace (snd (update_order_status 1 ship admin (world_of order_approved [shipment_pending])))
               = trace (world_of order_approved [shipment_pending]) @ PUT_order 1 ship # rest
           \<and> list_all (\<lambda>r. \<not> is_order_write r) rest
           \<and> (answered 200 (fst (client_put_order 1 ship (world_of order_approved [shipment_pending])))
                \<or> rest = []))"
proof -
  have adm: "role admin = ADMIN" by (simp add: admin_def ADMIN_def)
  show ?thesis
    by (rule conjI [OF adm order_write_comes_first [OF adm]])
qed

text \<open>
  The order is approved and has a pending shipment; the status change to SHIPPED first
  writes the order and then, last, updates the shipment.
\<close>

theorem order_write_last_counterexample:
  "trace (snd (update_order_status 1 ship admin (world_of order_approved [shipment_pending])))
     = [PUT_order 1 ship, GET_shipments, GET_order 1,
        PUT_shipment 1 \<lparr>su_status = Some ''IN_TRANSIT'', su_carrier = None, su_tracking_no = None,
                        su_shipped_at = None, su_delivered_at = None\<rparr>]
   \<and> map status (shipments_db (snd (update_order_status 1 ship admin
                                      (world_of order_approved [shipment_pending]))))
     = [''IN_TRANSIT'']"
  by code_simp

section \<open>Saga: payment decisions\<close>

text \<open>
  C10, as the code has it. For every payment request of an administrator whose action is
  not exactly \<^verbatim>\<open>'approve'\<close> (absent, null or misspelled included), the endpoint takes
  the decline path: its only request is the write that sets the order to CANCELLED with
  payment FAILED, the table of orders ends as that write left it, and the endpoint
  reports success with these two statuses whatever status code the write was answered
  with; when the write raises, the endpoint returns the failure envelope with the
  message of the exception. No action is rejected.
\<close>

theorem other_actions_decline:
  assumes "role usr = ADMIN" and "action pa \<noteq> Some ''approve''"
  shows "trace (snd (process_payment oid pa usr w)) = trace w @ [PUT_order oid decline_update]
       \<and> orders_db (snd (process_payment oid pa usr w)) = orders_db (snd (client_put_order oid decline_update w))
       \<and> fst (process_payment oid pa usr w) =
           Inr (case fst (client_put_order oid decline_update w) of
                  Inl e \<Rightarrow> failure e
                | Inr update_resp \<Rightarrow>
                    \<lparr>success = True,
                     message = Some (''Payment declined for order #'' @ str_nat oid),
                     error = None, env_payment_status = Some ''FAILED'',
                     env_order_status = Some ''CANCELLED'', env_data = None\<rparr>)"
proof -
  obtain r1 w1 where put: "client_put_order oid decline_update w = (r1, w1)"
    by (cases "client_put_order oid decline_update w") auto
  have t1: "trace w1 = trace w @ [PUT_order oid decline_update]"
    using client_put_order_trace [OF put] .
  show ?thesis
    using assms put t1
    by (cases r1)
      (simp_all add: process_payment_def process_payment_try_def decline_branch_def bind_io_def
        ret_def add_activity_def Let_def)
qed

theorem other_actions_decline_witness:
  "role admin = ADMIN
   \<and> action \<lparr>action = Some ''aprove'', pa_payment_id = None, pa_receipt_id = None\<rparr> \<noteq> Some ''approve''
   \<and> fst (process_payment 1 \<lparr>action = Some ''aprove'', pa_payment_id = None, pa_receipt_id = None\<rparr>
             admin (world_of order_pending []))
       = Inr \<lparr>success = True, message = Some ''Payment declined for order #1'', error = None,
              env_payment_status = Some ''FAILED'', env_order_status = Some ''CANCELLED'',
              env_data = None\<rparr>
   \<and> orders_db (snd (process_payment 1 \<lparr>action = Some ''aprove'', pa_payment_id = None,
                                         pa_receipt_id = None\<rparr> admin (world_of order_pending []))) 1
       = Some order_declined"
proof -
  have adm: "role admin = ADMIN" by (simp add: admin_def ADMIN_def)
  have act: "action \<lparr>action = Some ''aprove'', pa_payment_id = None, pa_receipt_id = None\<rparr>
               \<noteq> Some ''approve''" by simp
  have put: "client_put_order 1 decline_update (world_of order_pending [])
               = (Inr (200, Some order_declined),
                  (world_of order_pending [])\<lparr>trace := [PUT_order 1 decline_update],
                                               orders_db := [1 \<mapsto> order_declined]\<rparr>)"
    by (simp add: client_put_order_def send_def world_of_def update_order_def payment_finalized_def
        OrderService_update_def apply_order_update_def decline_update_def set_if_def
        order_pending_def order_declined_def touching_payment_fields_def Let_def)
  have one: "str_nat (Suc 0) = ''1''" by (simp add: str_nat.simps)
  show ?thesis
    using other_actions_decline [OF adm act, where oid = 1 and w = "world_of order_pending []"] adm
    unfolding put by (simp add: one)
qed

text \<open>
  The action is absent and the write to the orders service raises: the endpoint does not
  report success.
\<close>

theorem decline_reports_success_counterexample:
  "fst (process_payment 1 \<lparr>action = None, pa_payment_id = None, pa_receipt_id = None\<rparr> admin
          ((world_of order_pending [])\<lparr>faults := [FRaise ''ConnectError'']\<rparr>))
     = Inr \<lparr>success = False, message = None, error = Some ''ConnectError'',
            env_payment_status = None, env_order_status = None, env_data = None\<rparr>"
  by code_simp

text \<open>
  C1: the code at the failing input. The order was declined (payment FAILED, order
  CANCELLED); an approval then leaves the payment status FAILED, since the orders service
  rejects the write with 403, and still creates a shipment for the order and reports
  success.
\<close>

theorem approve_after_decline_creates_shipment:
  "fst (process_payment 1 approve admin (world_of order_declined []))
     = Inr \<lparr>success = True,
            message = Some ''Payment approved for order #1 | Shipment #1 created'', error = None,
            env_payment_status = Some ''COMPLETED'', env_order_status = Some ''PROCESSING'',
            env_data = None\<rparr>
   \<and> map_option payment_status
         (orders_db (snd (process_payment 1 approve admin (world_of order_declined []))) 1)
     = Some ''FAILED''
   \<and> map (\<lambda>s. (s_order_id s, status s))
         (shipments_db (snd (process_payment 1 approve admin (world_of order_declined []))))
     = [(1, ''PENDING'')]"
  by code_simp

text \<open>
  C2: the code at the failing input. Two approvals of the same pending order: the second
  one reports success again and creates a second shipment; the payment is finalized by
  the first only (the second write is answered with 403).
\<close>

theorem second_approve_duplicates_shipment:
  "fst (process_payment 1 approve admin
          (snd (process_payment 1 approve admin (world_of order_pending []))))
     = Inr \<lparr>success = True,
            message = Some ''Payment approved for order #1 | Shipment #2 created'', error = None,
            env_payment_status = Some ''COMPLETED'', env_order_status = Some ''PROCESSING'',
            env_data = None\<rparr>
   \<and> map (\<lambda>s. (s_id s, s_order_id s, status s))
         (shipments_of 1 (snd (process_payment 1 approve admin
                                 (snd (process_payment 1 approve admin (world_of order_pending []))))))
     = [(1, 1, ''PENDING''), (2, 1, ''PENDING'')]
   \<and> map a_action
         (recent_activity (snd (process_payment 1 approve admin
                                  (snd (process_payment 1 approve admin (world_of order_pending []))))))
     = [''PAYMENT'', ''CREATE'', ''PAYMENT'', ''CREATE'']"
  by code_simp

section \<open>Saga: shipping an order that is not paid\<close>

lemma client_put_order_keeps:
  "client_put_order oid p w = (r, w1) \<Longrightarrow> shipments_db w1 = shipments_db w"
  by (auto simp: client_put_order_def split: prod.splits fault.splits sum.splits http_exception.splits
      dest: send_keeps)

lemma update_order_unpaid:
  assumes "case db oid of None \<Rightarrow> True | Some ord \<Rightarrow> payment_status ord \<noteq> ''COMPLETED''"
    and "u_payment_status p \<noteq> Some ''COMPLETED''"
    and "update_order oid p db = (r, db')"
  shows "case db' oid of None \<Rightarrow> True | Some ord \<Rightarrow> payment_status ord \<noteq> ''COMPLETED''"
  using assms
  by (auto simp: update_order_def OrderService_update_def apply_order_update_def set_if_def Let_def
      split: option.splits if_splits)

lemma client_put_order_unpaid:
  assumes "unpaid oid w" and "u_payment_status p \<noteq> Some ''COMPLETED''"
    and "client_put_order oid p w = (r, w1)"
  shows "unpaid oid w1"
proof -
  obtain f w0 where s: "send (PUT_order oid p) w = (f, w0)"
    by (cases "send (PUT_order oid p) w") auto
  have db0: "orders_db w0 = orders_db w" using send_keeps [OF s] by simp
  obtain r' db' where u: "update_order oid p (orders_db w0) = (r', db')"
    by (cases "update_order oid p (orders_db w0)") auto
  have keep: "case db' oid of None \<Rightarrow> True | Some ord \<Rightarrow> payment_status ord \<noteq> ''COMPLETED''"
    using update_order_unpaid [OF _ assms(2) u] assms(1) db0 by (simp add: unpaid_def)
  show ?thesis
    using assms(1,3) s u db0 keep
    by (cases f; cases r')
      (auto simp: client_put_order_def unpaid_def split: http_exception.splits)
qed

lemma client_get_shipments_keeps:
  "client_get_shipments w = (r, w1) \<Longrightarrow> shipments_db w1 = shipments_db w \<and> orders_db w1 = orders_db w"
  by (auto simp: client_get_shipments_def split: prod.splits fault.splits dest: send_keeps)

lemma client_get_order_keeps:
  "client_get_order oid w = (r, w1) \<Longrightarrow> shipments_db w1 = shipments_db w \<and> orders_db w1 = orders_db w"
  by (auto simp: client_get_order_def split: prod.splits fault.splits sum.splits http_exception.splits
      dest: send_keeps)

lemma client_get_order_body:
  "client_get_order oid w = (Inr (n, Some ord), w1) \<Longrightarrow> orders_db w oid = Some ord"
  by (auto simp: client_get_order_def get_order_def
      split: prod.splits fault.splits sum.splits http_exception.splits option.splits
      dest: send_keeps)

lemma shipped_branch_unpaid:
  assumes "unpaid oid w" and run: "shipped_branch oid os usr w = (r, w')"
  shows "shipments_db w' = shipments_db w \<and> trace w' = trace w @ [GET_order oid]"
proof -
  obtain r1 w1 where get: "client_get_order oid w = (r1, w1)"
    by (cases "client_get_order oid w") auto
  have k: "shipments_db w1 = shipments_db w" and t: "trace w1 = trace w @ [GET_order oid]"
    using client_get_order_keeps [OF get] client_get_order_trace [OF get] by simp_all
  have "w' = w1"
  proof (cases r1)
    case (Inl e)
    then show ?thesis using run get by (simp add: shipped_branch_def bind_io_def)
  next
    case (Inr resp)
    obtain n body where resp: "resp = (n, body)" by (cases resp) auto
    show ?thesis
    proof (cases body)
      case None
      then show ?thesis
        using run get Inr resp
        by (auto simp: shipped_branch_def bind_io_def json_of_def ret_def split: if_splits)
    next
      case (Some ord)
      then have "orders_db w oid = Some ord"
        using client_get_order_body get Inr resp by simp
      then have "payment_status ord \<noteq> ''COMPLETED''"
        using assms(1) by (simp add: unpaid_def)
      then show ?thesis
        using run get Inr resp Some
        by (auto simp: shipped_branch_def bind_io_def json_of_def ret_def split: if_splits)
    qed
  qed
  then show ?thesis using k t by simp
qed

lemma handle_shipment_unpaid:
  assumes "unpaid oid w" and run: "handle_shipment oid (Some ''SHIPPED'') usr w = (r, w')"
  shows "shipments_db w' = shipments_db w
       \<and> filter is_shipment_write (trace w') = filter is_shipment_write (trace w)"
proof -
  obtain r1 w1 where get: "client_get_shipments w = (r1, w1)"
    by (cases "client_get_shipments w") auto
  have k: "shipments_db w1 = shipments_db w" "orders_db w1 = orders_db w"
    and t: "trace w1 = trace w @ [GET_shipments]"
    using client_get_shipments_keeps [OF get] client_get_shipments_trace [OF get] by simp_all
  have u1: "unpaid oid w1" using assms(1) k by (simp add: unpaid_def)
  have "w' = w1 \<or> (\<exists>os. shipped_branch oid os usr w1 = (r, w'))"
    using run get
    by (cases r1)
      (auto simp: handle_shipment_def bind_io_def json_of_def ret_def Let_def
        split: if_splits option.splits prod.splits sum.splits)
  then show ?thesis
  proof
    assume "w' = w1"
    then show ?thesis using k t by simp
  next
    assume "\<exists>os. shipped_branch oid os usr w1 = (r, w')"
    then obtain os where "shipped_branch oid os usr w1 = (r, w')" by blast
    then show ?thesis using shipped_branch_unpaid [OF u1] k t by simp
  qed
qed

lemma after_order_update_unpaid:
  assumes "unpaid oid w" and "u_order_status sd = Some ''SHIPPED''"
    and run: "after_order_update oid sd usr response w = (r, w')"
  shows "shipments_db w' = shipments_db w
       \<and> filter is_shipment_write (trace w') = filter is_shipment_write (trace w)"
proof (cases "fst response = 200")
  case False
  then show ?thesis using run by (simp add: after_order_update_def ret_def)
next
  case True
  obtain r1 w1 where h: "handle_shipment oid (Some ''SHIPPED'') usr w = (r1, w1)"
    by (cases "handle_shipment oid (Some ''SHIPPED'') usr w") auto
  have k: "shipments_db w1 = shipments_db w
         \<and> filter is_shipment_write (trace w1) = filter is_shipment_write (trace w)"
    using handle_shipment_unpaid [OF assms(1) h] .
  have "shipments_db w' = shipments_db w1 \<and> trace w' = trace w1"
    using run True h assms(2)
    by (cases r1)
      (auto simp: after_order_update_def bind_io_def catch_all_def add_activity_def json_of_def
        ret_def Let_def split: option.splits)
  then show ?thesis using k by simp
qed

text \<open>
  C3, as the code has it. For every order whose payment status is not COMPLETED, a status
  change to SHIPPED (one that does not itself set the payment status to COMPLETED)
  creates and changes no shipment, on every path: the table of shipments is as before
  and no write to the shipments service is issued.
\<close>

theorem shipped_without_payment_leaves_shipments:
  assumes "orders_db w oid = Some ord" and "payment_status ord \<noteq> ''COMPLETED''"
    and "u_order_status sd = Some ''SHIPPED''" and "u_payment_status sd \<noteq> Some ''COMPLETED''"
  shows "shipments_db (snd (update_order_status oid sd usr w)) = shipments_db w
       \<and> filter is_shipment_write (trace (snd (update_order_status oid sd usr w)))
           = filter is_shipment_write (trace w)"
proof (cases "role usr = ADMIN")
  case False
  then show ?thesis by (simp add: update_order_status_def)
next
  case True
  have u: "unpaid oid w" using assms(1,2) by (simp add: unpaid_def)
  obtain r1 w1 where put: "client_put_order oid sd w = (r1, w1)"
    by (cases "client_put_order oid sd w") auto
  have k1: "shipments_db w1 = shipments_db w" and t1: "trace w1 = trace w @ [PUT_order oid sd]"
    using client_put_order_keeps [OF put] client_put_order_trace [OF put] by simp_all
  have u1: "unpaid oid w1" using client_put_order_unpaid [OF u assms(4) put] .
  show ?thesis
  proof (cases r1)
    case (Inl e)
    then have "snd (update_order_status oid sd usr w) = w1"
      using True put by (simp add: update_order_status_def update_order_status_try_def bind_io_def)
    then show ?thesis using k1 t1 by simp
  next
    case (Inr response)
    obtain r2 w2 where after: "after_order_update oid sd usr response w1 = (r2, w2)"
      by (cases "after_order_update oid sd usr response w1") auto
    have w2: "snd (update_order_status oid sd usr w) = w2"
      using True put Inr after
      by (cases r2) (simp_all add: update_order_status_def update_order_status_try_def bind_io_def)
    show ?thesis
      using after_order_update_unpaid [OF u1 assms(3) after] w2 k1 t1 by simp
  qed
qed

theorem shipped_without_payment_leaves_shipments_witness:
  "orders_db (world_of order_pending []) 1 = Some order_pending
   \<and> payment_status order_pending \<noteq> ''COMPLETED''
   \<and> u_order_status ship = Some ''SHIPPED''
   \<and> u_payment_status ship \<noteq> Some ''COMPLETED''
   \<and> shipments_db (snd (update_order_status 1 ship admin (world_of order_pending [])))
       = shipments_db (world_of order_pending [])
   \<and> filter is_shipment_write (trace (snd (update_order_status 1 ship admin (world_of order_pending []))))
       = filter is_shipment_write (trace (world_of order_pending []))"
proof -
  have h1: "orders_db (world_of order_pending []) 1 = Some order_pending"
    by (simp add: world_of_def)
  have h2: "payment_status order_pending \<noteq> ''COMPLETED''" by (simp add: order_pending_def)
  have h3: "u_order_status ship = Some ''SHIPPED''" by (simp add: ship_def)
  have h4: "u_payment_status ship \<noteq> Some ''COMPLETED''" by (simp add: ship_def)
  show ?thesis
    using h1 h2 h3 h4 shipped_without_payment_leaves_shipments [OF h1 h2 h3 h4, where usr = admin]
    by (intro conjI) simp_all
qed

text \<open>
  The order is pending and unpaid; the status change to SHIPPED is not rejected: it
  reports success and the order is SHIPPED afterwards.
\<close>

theorem shipped_rejected_counterexample:
  "fst (update_order_status 1 ship admin (world_of order_pending []))
     = Inr \<lparr>success = True, message = Some ''Order status updated'', error = None,
            env_payment_status = None, env_order_status = None,
            env_data = Some (order_pending\<lparr>order_status := ''SHIPPED''\<rparr>)\<rparr>
   \<and> map_option payment_status (orders_db (world_of order_pending []) 1) = Some ''PENDING''
   \<and> map_option order_status (orders_db (world_of order_pending []) 1) = Some ''PENDING''
   \<and> map_option order_status
         (orders_db (snd (update_order_status 1 ship admin (world_of order_pending []))) 1)
     = Some ''SHIPPED''"
  by code_simp

section \<open>Gateway: invalidation after a mutation\<close>

lemma startswith_append: "startswith (p @ s) p"
  by (induction p) simp_all

lemma startswith_append2: "startswith s (p @ q) \<Longrightarrow> startswith s p"
  by (induction s p rule: startswith.induct) simp_all

lemma rest_key_has_list_prefix:
  "startswith (rest_cache_key (build_downstream_url base service path) q) (list_prefix service base)"
proof -
  have "\<exists>t. rest_cache_key (build_downstream_url base service path) q = list_prefix service base @ t"
    by (simp add: rest_cache_key_def build_downstream_url_def list_prefix_def Let_def)
  then show ?thesis using startswith_append by auto
qed

lemma gql_key_has_gql_prefix: "startswith (gql_build_cache_key service args) (gql_prefix service)"
proof -
  have "gql_build_cache_key service args = gql_prefix service @ '':'' @ args"
    by (simp add: gql_build_cache_key_def gql_prefix_def)
  then show ?thesis using startswith_append by simp
qed

lemma cdp_redis_client: "redis_client (cache_delete_pattern fails patterns c) = redis_client c"
  by (induction patterns arbitrary: fails c) (simp_all add: Let_def)

lemma cdp_local_stays_none:
  "local_cache c key = None \<Longrightarrow> local_cache (cache_delete_pattern fails patterns c) key = None"
  by (induction patterns arbitrary: fails c) (simp_all add: Let_def purge_def)

lemma cdp_redis_stays_none:
  "redis c key = None \<Longrightarrow> redis (cache_delete_pattern fails patterns c) key = None"
  by (induction patterns arbitrary: fails c) (simp_all add: Let_def purge_def)

lemma cdp_local_purged:
  "pre \<in> set patterns \<Longrightarrow> startswith key pre \<Longrightarrow>
   local_cache (cache_delete_pattern fails patterns c) key = None"
proof (induction patterns arbitrary: fails c)
  case Nil
  then show ?case by simp
next
  case (Cons p ps)
  show ?case
  proof (cases "pre = p")
    case True
    then show ?thesis
      using Cons.prems(2) by (simp add: Let_def cdp_local_stays_none purge_def)
  next
    case False
    then have "pre \<in> set ps" using Cons.prems(1) by simp
    then show ?thesis using Cons.IH Cons.prems(2) by (simp add: Let_def)
  qed
qed

lemma cdp_redis_purged:
  "pre \<in> set patterns \<Longrightarrow> startswith key pre \<Longrightarrow> redis_client c \<Longrightarrow> True \<notin> set fails \<Longrightarrow>
   redis (cache_delete_pattern fails patterns c) key = None"
proof (induction patterns arbitrary: fails c)
  case Nil
  then show ?case by simp
next
  case (Cons p ps)
  have tl: "True \<notin> set (tl fails)" using Cons.prems(4) by (cases fails) auto
  have hd: "\<not> (case fails of [] \<Rightarrow> False | f # fs \<Rightarrow> f)" using Cons.prems(4) by (cases fails) auto
  show ?case
  proof (cases "pre = p")
    case True
    then show ?thesis
      using Cons.prems(2,3) hd by (simp add: Let_def cdp_redis_stays_none purge_def)
  next
    case False
    then have "pre \<in> set ps" using Cons.prems(1) by simp
    then show ?thesis using Cons.IH [OF _ Cons.prems(2) _ tl] Cons.prems(3) hd by (simp add: Let_def)
  qed
qed

lemma invalidate_patterns:
  "\<exists>patterns. invalidate_caches fails service base eid c = cache_delete_pattern fails patterns c
     \<and> list_prefix service base \<in> set patterns \<and> gql_prefix service \<in> set patterns"
proof (cases eid)
  case None
  show ?thesis
    by (rule exI [of _ "[list_prefix service base, gql_prefix service]"])
      (simp add: invalidate_caches_def None del: cache_delete_pattern.simps)
next
  case (Some e)
  show ?thesis
    by (rule exI [of _ "[detail_prefix service base e, list_prefix service base, gql_prefix service]"])
      (simp add: invalidate_caches_def Some del: cache_delete_pattern.simps)
qed

lemma invalidate_misses:
  assumes "startswith key (list_prefix service base) \<or> startswith key (gql_prefix service)"
  shows "local_cache (invalidate_caches fails service base eid c) key = None"
    and "True \<notin> set fails \<Longrightarrow> cache_get gf key (invalidate_caches fails service base eid c) = JNull"
proof -
  obtain patterns where p: "invalidate_caches fails service base eid c = cache_delete_pattern fails patterns c"
    and l: "list_prefix service base \<in> set patterns" and g: "gql_prefix service \<in> set patterns"
    using invalidate_patterns by blast
  show loc: "local_cache (invalidate_caches fails service base eid c) key = None"
    using assms cdp_local_purged [OF l] cdp_local_purged [OF g] p by auto
  assume nf: "True \<notin> set fails"
  show "cache_get gf key (invalidate_caches fails service base eid c) = JNull"
  proof (cases "redis_client c")
    case False
    then show ?thesis using loc p by (simp add: cache_get_def local_get_def cdp_redis_client)
  next
    case True
    have "redis (invalidate_caches fails service base eid c) key = None"
      using assms cdp_redis_purged [OF l _ True nf] cdp_redis_purged [OF g _ True nf] p by auto
    then show ?thesis using loc by (simp add: cache_get_def local_get_def)
  qed
qed

lemma proxy_mutation_cache:
  assumes "SERVICE_MAP service = Some base" and "is_mutating method"
  shows "snd (proxy gf sf pf service path method q (Inr resp) c) =
           (if status_code resp < 400
            then (case parse_entity_id path of
                    Inl e \<Rightarrow> c
                  | Inr eid \<Rightarrow> invalidate_caches pf service base eid c)
            else c)"
proof -
  have ng: "method \<noteq> ''GET''" using assms(2) by (auto simp: is_mutating_def)
  show ?thesis
    using assms ng by (simp add: proxy_def Let_def split: option.splits sum.splits)
qed

text \<open>
  C4, as the code has it. A mutating call (POST, PUT, PATCH, DELETE) through the proxy to
  a known service, answered by the service. With a status below 400, and a path whose
  last segment \<^verbatim>\<open>int\<close> does not refuse, every REST key of the service (list and detail
  views) and every GraphQL key of the service is gone from the in-process tier, and a
  later \<^verbatim>\<open>cache_get\<close> of such a key misses unless a Redis purge of this call raised
  (the source swallows that exception, and the keys stay in Redis). With a status of 400
  or above the cache is unchanged.
\<close>

theorem mutation_invalidates:
  assumes "SERVICE_MAP service = Some base" and "is_mutating method"
  shows "(if status_code resp < 400
          then int_raises path
             \<or> local_cache (snd (proxy gf sf pf service path method q (Inr resp) c))
                  (rest_cache_key (build_downstream_url base service path') q') = None
               \<and> local_cache (snd (proxy gf sf pf service path method q (Inr resp) c))
                  (gql_build_cache_key service args) = None
               \<and> (True \<in> set pf
                  \<or> cache_get gf' (rest_cache_key (build_downstream_url base service path') q')
                       (snd (proxy gf sf pf service path method q (Inr resp) c)) = JNull
                    \<and> cache_get gf' (gql_build_cache_key service args)
                       (snd (proxy gf sf pf service path method q (Inr resp) c)) = JNull)
          else snd (proxy gf sf pf service path method q (Inr resp) c) = c)"
proof (cases "status_code resp < 400")
  case False
  then show ?thesis using proxy_mutation_cache [OF assms] by simp
next
  case lt: True
  show ?thesis
  proof (cases "parse_entity_id path")
    case (Inl e)
    then have "int_raises path" by (simp add: int_raises_def)
    then show ?thesis using lt by simp
  next
    case (Inr eid)
    define rk where "rk = rest_cache_key (build_downstream_url base service path') q'"
    define gk where "gk = gql_build_cache_key service args"
    have eq: "snd (proxy gf sf pf service path method q (Inr resp) c)
                = invalidate_caches pf service base eid c"
      using proxy_mutation_cache [OF assms] lt Inr by simp
    have rp: "startswith rk (list_prefix service base) \<or> startswith rk (gql_prefix service)"
      unfolding rk_def using rest_key_has_list_prefix by simp
    have gp: "startswith gk (list_prefix service base) \<or> startswith gk (gql_prefix service)"
      unfolding gk_def using gql_key_has_gql_prefix by simp
    have l1: "local_cache (invalidate_caches pf service base eid c) rk = None"
      using invalidate_misses(1) [OF rp] .
    have l2: "local_cache (invalidate_caches pf service base eid c) gk = None"
      using invalidate_misses(1) [OF gp] .
    have g1: "True \<in> set pf \<or> cache_get gf' rk (invalidate_caches pf service base eid c) = JNull"
    proof (cases "True \<in> set pf")
      case True
      then show ?thesis by simp
    next
      case False
      show ?thesis using invalidate_misses(2) [OF rp False] by simp
    qed
    have g2: "True \<in> set pf \<or> cache_get gf' gk (invalidate_caches pf service base eid c) = JNull"
    proof (cases "True \<in> set pf")
      case True
      then show ?thesis by simp
    next
      case False
      show ?thesis using invalidate_misses(2) [OF gp False] by simp
    qed
    show ?thesis
      unfolding eq using lt l1 l2 g1 g2 unfolding rk_def gk_def by auto
  qed
qed

theorem mutation_invalidates_witness:
  "SERVICE_MAP ''orders'' = Some ''http://orders:8000''
   \<and> is_mutating ''PUT''
   \<and> \<not> int_raises ''5''
   \<and> cache_get False (rest_cache_key (build_downstream_url ''http://orders:8000'' ''orders'' []) [])
        stale_cache = JValue ''[5, 7]''
   \<and> cache_get False (rest_cache_key (build_downstream_url ''http://orders:8000'' ''orders'' []) [])
        (snd (proxy False False [] ''orders'' ''5'' ''PUT'' [] (Inr json_ok) stale_cache)) = JNull"
proof -
  have h1: "SERVICE_MAP ''orders'' = Some ''http://orders:8000''" by (simp add: SERVICE_MAP_def)
  have h2: "is_mutating ''PUT''" by (simp add: is_mutating_def)
  have h3: "\<not> int_raises ''5''"
    by (simp add: int_raises_def parse_entity_id_def last_segment_def rstrip_slash_def isdigit_def
        is_decimal_def py_int_of_str_def)
  have before: "cache_get False (rest_cache_key (build_downstream_url ''http://orders:8000'' ''orders'' []) [])
        stale_cache = JValue ''[5, 7]''"
    by (simp add: cache_get_def stale_cache_def rest_cache_key_def build_downstream_url_def
        lstrip_slash_def)
  have lt: "status_code json_ok < 400" by (simp add: json_ok_def)
  have after: "cache_get False (rest_cache_key (build_downstream_url ''http://orders:8000'' ''orders'' []) [])
        (snd (proxy False False [] ''orders'' ''5'' ''PUT'' [] (Inr json_ok) stale_cache)) = JNull"
    using lt h3
      mutation_invalidates [OF h1 h2, where gf = False and sf = False and pf = "[]"
        and path = "''5''" and q = "[]" and resp = json_ok and c = stale_cache
        and path' = "[]" and q' = "[]" and args = "[]" and gf' = False]
    by simp
  show ?thesis
    using h1 h2 h3 before after by (intro conjI)
qed

text \<open>
  The list of orders is cached in Redis. A successful \<^verbatim>\<open>PUT /orders/5\<close> whose Redis purge
  of the list prefix raises leaves it there, and the next read returns the value cached
  before the mutation. A successful \<^verbatim>\<open>PUT\<close> whose last path segment is the superscript
  two (a digit for \<^verbatim>\<open>isdigit\<close>, refused by \<^verbatim>\<open>int\<close>) raises, invalidates nothing,
  and the next read returns the cached value as well.
\<close>

theorem stale_read_counterexample:
  "cache_get False ''rest:GET:http://orders:8000/orders/:''
     (snd (proxy False False [False, True, False] ''orders'' ''5'' ''PUT'' [] (Inr json_ok) stale_cache))
   = JValue ''[5, 7]''
   \<and> fst (proxy False False [] ''orders'' [CHR 0xB2] ''PUT'' [] (Inr json_ok) stale_cache)
   = Inl (Raised ''ValueError'')
   \<and> cache_get False ''rest:GET:http://orders:8000/orders/:''
     (snd (proxy False False [] ''orders'' [CHR 0xB2] ''PUT'' [] (Inr json_ok) stale_cache))
   = JValue ''[5, 7]''"
  by code_simp

end
